theory Spec2Isabelle
  imports Complex_Main "HOL-Library.Multiset"
begin

section \<open>Conditional-spectrum record selection (CS_master.py)\<close>

text \<open>
  The program works on IEEE double-precision numbers through numpy. The embedding
  idealises them as real numbers. Where numpy would leave the reals (a division by
  zero, the logarithm of a non-positive number, the square root of a negative number),
  the embedded function returns \<open>Inl NotFinite\<close>: from there on the real-number model
  says nothing about what the program computes. Python exceptions are the other
  constructors of \<open>error\<close>.
\<close>

datatype error =
    IndexError | ValueError | ZeroDivisionError | UnboundLocalError
  | AttributeError | SystemExit | NotFinite

subsection \<open>Errors as values and numpy primitives\<close>

definition bindE :: "error + 'a \<Rightarrow> ('a \<Rightarrow> error + 'b) \<Rightarrow> error + 'b" where
  "bindE m f = (case m of Inl e \<Rightarrow> Inl e | Inr v \<Rightarrow> f v)"

text \<open>A \<open>for\<close> loop that fills an array, stopping at the first failure.\<close>

fun mapE :: "('a \<Rightarrow> error + 'b) \<Rightarrow> 'a list \<Rightarrow> error + 'b list" where
  "mapE f [] = Inr []"
| "mapE f (x # xs) = bindE (f x) (\<lambda>y. bindE (mapE f xs) (\<lambda>ys. Inr (y # ys)))"

text \<open>A \<open>for\<close> loop that updates a state, stopping at the first failure.\<close>

fun foldE :: "('s \<Rightarrow> 'a \<Rightarrow> error + 's) \<Rightarrow> 'a list \<Rightarrow> 's \<Rightarrow> error + 's" where
  "foldE f [] s = Inr s"
| "foldE f (x # xs) s = bindE (f s x) (foldE f xs)"

definition np_log :: "real \<Rightarrow> error + real" where
  "np_log x = (if 0 < x then Inr (ln x) else Inl NotFinite)"

definition np_mean :: "real list \<Rightarrow> real" where
  "np_mean xs = sum_list xs / real (length xs)"

text \<open>\<open>np.std\<close> is the population standard deviation (\<open>ddof = 0\<close>).\<close>

definition np_std :: "real list \<Rightarrow> real" where
  "np_std xs = sqrt (sum_list (map (\<lambda>x. (x - np_mean xs)\<^sup>2) xs) / real (length xs))"

text \<open>Column \<open>k\<close> of a matrix stored as a list of rows: \<open>A[:, k]\<close>.\<close>

definition col :: "nat \<Rightarrow> real list list \<Rightarrow> real list" where
  "col k rows = map (\<lambda>r. r ! k) rows"

text \<open>\<open>np.where(p)[0][0]\<close>: the first index that satisfies \<open>p\<close>, IndexError if there is none.\<close>

fun first_index :: "('a \<Rightarrow> bool) \<Rightarrow> 'a list \<Rightarrow> nat option" where
  "first_index p [] = None"
| "first_index p (x # xs) =
     (if p x then Some 0 else map_option Suc (first_index p xs))"

definition np_where0 :: "('a \<Rightarrow> bool) \<Rightarrow> 'a list \<Rightarrow> error + nat" where
  "np_where0 p xs = (case first_index p xs of None \<Rightarrow> Inl IndexError | Some i \<Rightarrow> Inr i)"

text \<open>\<open>np.min\<close> and \<open>np.max\<close> raise ValueError on an empty array.\<close>

definition np_min :: "real list \<Rightarrow> error + real" where
  "np_min xs = (if xs = [] then Inl ValueError else Inr (Min (set xs)))"

definition np_max :: "real list \<Rightarrow> error + real" where
  "np_max xs = (if xs = [] then Inl ValueError else Inr (Max (set xs)))"

text \<open>\<open>np.delete(xs, i)\<close> for an index in range.\<close>

definition np_delete :: "'a list \<Rightarrow> nat \<Rightarrow> 'a list" where
  "np_delete xs i = take i xs @ drop (Suc i) xs"

text \<open>
  \<open>np.argsort(err)[0]\<close>: an index of a least element. The model takes the first one
  (numpy's default sort may order equal elements differently; no property below
  depends on which least element is taken).
\<close>

definition argsort0 :: "real list \<Rightarrow> nat" where
  "argsort0 xs = (case first_index (\<lambda>x. x = Min (set xs)) xs of Some i \<Rightarrow> i | None \<Rightarrow> 0)"

subsection \<open>Inter-period correlation: \<open>Baker_Jayaram_2008\<close>\<close>

text \<open>
  The result is \<open>c2\<close> when \<open>t_max \<le> 0.109\<close> and is built from \<open>c1\<close> and \<open>c4\<close> only
  when \<open>t_max > 0.109\<close>. There the argument of \<open>np.log\<close> in \<open>c1\<close> is positive and
  \<open>c3 = c1 = 1 - cos(...)\<close> under \<open>np.sqrt\<close> in \<open>c4\<close> is not negative, so neither needs a
  guard; whatever \<open>c1\<close> and \<open>c4\<close> are elsewhere is not returned. The quotient in \<open>c2\<close> is
  evaluated when \<open>t_max < 0.2\<close>, and \<open>c2\<close> is then part of the result; its denominator
  vanishes at \<open>t_max = 0.0099\<close>.
\<close>

definition Baker_Jayaram_2008 :: "real \<Rightarrow> real \<Rightarrow> error + real" where
  "Baker_Jayaram_2008 T1 T2 =
    (let t_min = min T1 T2;
         t_max = max T1 T2;
         c1 = 1 - cos (pi / 2 - ln (t_max / max t_min (109 / 1000)) * (366 / 1000))
     in if t_max < 2 / 10 \<and> t_max - 99 / 10000 = 0 then Inl NotFinite
        else
          let c2 = (if t_max < 2 / 10
                    then 1 - (105 / 1000) * (1 - 1 / (1 + exp (100 * t_max - 5)))
                             * (t_max - t_min) / (t_max - 99 / 10000)
                    else 0);
              c3 = (if t_max < 109 / 1000 then c2 else c1);
              c4 = c1 + (1 / 2) * (sqrt c3 - c3) * (1 + cos (pi * t_min / (109 / 1000)))
          in Inr (if t_max \<le> 109 / 1000 then c2
                  else if t_min > 109 / 1000 then c1
                  else if t_max < 2 / 10 then min c2 c4
                  else c4))"

text \<open>The three intermediate coefficients, named for the proofs.\<close>

definition bj_c1 :: "real \<Rightarrow> real \<Rightarrow> real" where
  "bj_c1 a b = 1 - cos (pi / 2 - ln (b / max a (109 / 1000)) * (366 / 1000))"

definition bj_c2 :: "real \<Rightarrow> real \<Rightarrow> real" where
  "bj_c2 a b = 1 - (105 / 1000) * (1 - 1 / (1 + exp (100 * b - 5))) * (b - a) / (b - 99 / 10000)"

definition bj_c4 :: "real \<Rightarrow> real \<Rightarrow> real" where
  "bj_c4 a b = bj_c1 a b + (1 / 2) * (sqrt (bj_c1 a b) - bj_c1 a b) * (1 + cos (pi * a / (109 / 1000)))"

subsection \<open>Average spectral acceleration: \<open>Sa_avg\<close> and \<open>rho_AvgSA_SA\<close>\<close>

text \<open>
  The ground-motion model is outside the repository (OpenQuake). For one scenario it is
  a parameter \<open>bgmpe\<close> that gives, for a period, the mean and the total standard
  deviation of the logarithmic spectral acceleration
  (\<open>get_mean_and_stddevs(sites, rup, dists, imt.SA(period), [TOTAL])\<close>).
\<close>

definition Sa_avg :: "(real \<Rightarrow> real \<times> real) \<Rightarrow> real list \<Rightarrow> error + (real \<times> real)" where
  "Sa_avg bgmpe Ts =
     (let n = length Ts;
          mu_lnSaTstar = map (\<lambda>t. fst (bgmpe t)) Ts;
          sigma_lnSaTstar = map (\<lambda>t. ln (sqrt ((exp (snd (bgmpe t)))\<^sup>2 * (2 / (1 + 1))))) Ts
      in bindE (mapE (\<lambda>a. mapE (\<lambda>b. Baker_Jayaram_2008 a b) Ts) Ts) (\<lambda>MoC.
           if n = 0 then Inl ZeroDivisionError
           else
             let SPa_avg_meanLn = (1 / real n) * sum_list mu_lnSaTstar;
                 SPa_avg_std =
                   sum_list (map (\<lambda>i. sum_list (map (\<lambda>j.
                       MoC ! i ! j * sigma_lnSaTstar ! i * sigma_lnSaTstar ! j) [0..<n])) [0..<n])
                   * (1 / real n)\<^sup>2
             in if SPa_avg_std < 0 then Inl NotFinite
                else Inr (SPa_avg_meanLn, sqrt SPa_avg_std)))"

definition rho_AvgSA_SA :: "(real \<Rightarrow> real \<times> real) \<Rightarrow> real \<Rightarrow> real list \<Rightarrow> error + real" where
  "rho_AvgSA_SA bgmpe t Ts =
     bindE (mapE (\<lambda>ts. Baker_Jayaram_2008 t ts) Ts) (\<lambda>rho_bj.
       let rho = sum_list (map (\<lambda>j. rho_bj ! j * snd (bgmpe (Ts ! j))) [0..<length Ts])
       in bindE (Sa_avg bgmpe Ts) (\<lambda>avg.
            if real (length Ts) * snd avg = 0 then Inl NotFinite
            else Inr (rho / (real (length Ts) * snd avg))))"

subsection \<open>The object state after \<open>create\<close>\<close>

text \<open>
  The attributes of \<open>self\<close> that \<open>create\<close> sets and \<open>select\<close> reads. \<open>create\<close> deletes
  \<open>self.Tstar\<close> when \<open>cond == 0\<close> and sets \<open>self.im_Tstar\<close> only when \<open>cond == 1\<close>:
  an absent attribute is \<open>None\<close>.
\<close>

record target =
  mu_ln :: "real list"
  sigma_ln :: "real list"
  T :: "real list"
  cov :: "real list list"
  cond :: int
  useVar :: int
  Hcont :: "real list"
  Tstar :: "real list option"
  im_Tstar :: "real option"

subsection \<open>The target spectrum: \<open>cs_master.create\<close>\<close>

text \<open>
  The arguments of \<open>create\<close> and the attributes it reads: \<open>Periods\<close> is
  \<open>self.database['Periods']\<close>, \<open>Tstar_init\<close> is \<open>self.Tstar\<close> as \<open>__init__\<close> set it,
  \<open>nScenarios\<close> is \<open>len(rup_param['mag'])\<close>, and \<open>bgmpe n\<close> is the ground-motion model
  in the contexts of scenario \<open>n\<close>. \<open>Hcont_arg\<close> and \<open>epsilon\<close> may be \<open>None\<close>.
\<close>

record create_args =
  Periods :: "real list"
  Tstar_init :: "real list"
  bgmpe :: "nat \<Rightarrow> real \<Rightarrow> real \<times> real"
  nScenarios :: nat
  Hcont_arg :: "real list option"
  T_Tgt_range :: "real list"
  im_Tstar_arg :: real
  epsilon :: "real list option"
  cond_arg :: int
  useVar_arg :: int

text \<open>\<open>temp = np.abs(ps - x); np.where(temp == np.min(temp))[0][0]\<close>\<close>

definition nearest_index :: "real list \<Rightarrow> real \<Rightarrow> error + nat" where
  "nearest_index ps x =
     (let temp = map (\<lambda>p. \<bar>p - x\<bar>) ps
      in bindE (np_min temp) (\<lambda>m. np_where0 (\<lambda>t. t = m) temp))"

text \<open>\<open>T_Tgt\<close>: the slice of the database periods nearest to the requested range.\<close>

definition target_periods :: "create_args \<Rightarrow> error + real list" where
  "target_periods c =
     bindE (np_min (T_Tgt_range c)) (\<lambda>lo.
       bindE (nearest_index (Periods c) lo) (\<lambda>idx1.
         bindE (np_max (T_Tgt_range c)) (\<lambda>hi.
           bindE (nearest_index (Periods c) hi) (\<lambda>idx2.
             Inr (drop idx1 (take (idx2 + 1) (Periods c)))))))"

text \<open>\<open>self.Tstar\<close> after the first branch of \<open>create\<close>: deleted, replaced by a slice of
  \<open>T_Tgt\<close>, or left as it is.\<close>

definition conditioning_periods :: "create_args \<Rightarrow> real list \<Rightarrow> error + real list option" where
  "conditioning_periods c T_Tgt =
     (if cond_arg c = 0 then Inr None
      else if length (Tstar_init c) \<noteq> 1 then
        bindE (np_min (Tstar_init c)) (\<lambda>Tlower.
          bindE (nearest_index T_Tgt Tlower) (\<lambda>idx1.
            bindE (np_max (Tstar_init c)) (\<lambda>Tupper.
              bindE (nearest_index T_Tgt Tupper) (\<lambda>idx2.
                Inr (Some (drop idx1 (take (idx2 + 1) T_Tgt)))))))
      else Inr (Some (Tstar_init c)))"

text \<open>
  The covariance of one scenario, entry \<open>(i, j)\<close>: the correlation model times the two
  standard deviations, reduced in the conditional case by the part explained by the
  conditioning intensity (\<open>sigma_cond[0, 1]\<close>).
\<close>

definition scenario_cov ::
  "int \<Rightarrow> real list \<Rightarrow> real list \<Rightarrow> real list \<Rightarrow> real \<Rightarrow> error + real list list" where
  "scenario_cov cnd T_Tgt sigma_lnSaT rho_T_Tstar sigma_lnSaTstar =
     (if cnd = 1 \<or> cnd = 0 then
        mapE (\<lambda>i. mapE (\<lambda>j.
          let var1 = (sigma_lnSaT ! i)\<^sup>2;
              var2 = (sigma_lnSaT ! j)\<^sup>2
          in bindE (Baker_Jayaram_2008 (T_Tgt ! i) (T_Tgt ! j)) (\<lambda>bj.
               let sigma_Corr = bj * sqrt (var1 * var2)
               in if cnd = 1 then
                    let varTstar = sigma_lnSaTstar\<^sup>2
                    in if varTstar = 0 then Inl NotFinite
                       else Inr (sigma_Corr
                                 - (rho_T_Tstar ! i * sqrt (var1 * varTstar)) * (1 / varTstar)
                                   * (rho_T_Tstar ! j * sqrt (varTstar * var2)))
                  else Inr sigma_Corr))
          [0..<length T_Tgt]) [0..<length T_Tgt]
      else Inr (replicate (length T_Tgt) (replicate (length T_Tgt) 0)))"

text \<open>
  One scenario: the column \<open>TgtMean[:, n]\<close> and the matrix \<open>TgtCov[n, :, :]\<close>. The
  matrix is kept as a result of its own: \<open>create\<close> discards it when \<open>useVar == 0\<close>.
\<close>

definition scenario_target ::
  "create_args \<Rightarrow> real list \<Rightarrow> real list option \<Rightarrow> nat
     \<Rightarrow> error + (real list \<times> (error + real list list))" where
  "scenario_target c T_Tgt Ts n =
     (let mu_lnSaT = map (\<lambda>t. fst (bgmpe c n t)) T_Tgt;
          sigma_lnSaT = map (\<lambda>t. snd (bgmpe c n t)) T_Tgt
      in if cond_arg c = 1 then
           (case Ts of None \<Rightarrow> Inl AttributeError
            | Some ts \<Rightarrow>
              bindE (mapE (\<lambda>t. rho_AvgSA_SA (bgmpe c n) t ts) T_Tgt) (\<lambda>rho_T_Tstar.
                bindE (Sa_avg (bgmpe c n) ts) (\<lambda>avg.
                  bindE (case epsilon c of
                           None \<Rightarrow>
                             if im_Tstar_arg c \<le> 0 \<or> snd avg = 0 then Inl NotFinite
                             else Inr ((ln (im_Tstar_arg c) - fst avg) / snd avg)
                         | Some eps \<Rightarrow>
                             if n < length eps then Inr (eps ! n) else Inl IndexError)
                    (\<lambda>rup_eps.
                      Inr (map (\<lambda>i. mu_lnSaT ! i + rho_T_Tstar ! i * rup_eps * sigma_lnSaT ! i)
                             [0..<length T_Tgt],
                           scenario_cov 1 T_Tgt sigma_lnSaT rho_T_Tstar (snd avg))))))
         else if cond_arg c = 0 then
           Inr (mu_lnSaT, scenario_cov 0 T_Tgt sigma_lnSaT [] 0)
         else
           Inr (replicate (length T_Tgt) 0, scenario_cov (cond_arg c) T_Tgt sigma_lnSaT [] 0))"

text \<open>The floor of the covariance: \<open>TgtCov_fin[np.abs(TgtCov_fin) < 1e-10] = 1e-10\<close>.\<close>

definition cov_floor :: "real \<Rightarrow> real" where
  "cov_floor v = (if \<bar>v\<bar> < 1 / 10 ^ 10 then 1 / 10 ^ 10 else v)"

text \<open>\<open>np.sqrt\<close> of a diagonal entry, with NaN replaced by 0.\<close>

definition sqrt_or_zero :: "real \<Rightarrow> real" where
  "sqrt_or_zero d = (if d < 0 then 0 else sqrt d)"

text \<open>
  The stored conditioning level: the argument when epsilon is back-calculated, and
  otherwise recomputed from the combined mean at the conditioning periods.
\<close>

definition stored_im_Tstar ::
  "create_args \<Rightarrow> real list \<Rightarrow> real list option \<Rightarrow> real list \<Rightarrow> error + real option" where
  "stored_im_Tstar c T_Tgt Ts TgtMean_fin =
     (if cond_arg c = 1 then
        (case epsilon c of
           None \<Rightarrow> Inr (Some (im_Tstar_arg c))
         | Some eps \<Rightarrow>
             (case Ts of None \<Rightarrow> Inl AttributeError
              | Some ts \<Rightarrow>
                  bindE (mapE (\<lambda>t. np_where0 (\<lambda>x. x = t) T_Tgt) ts) (\<lambda>ind.
                    if length ts = 0 then Inl NotFinite
                    else Inr (Some (exp (sum_list (map (\<lambda>k. TgtMean_fin ! k) ind)
                                         / real (length ts)))))))
      else Inr None)"

text \<open>
  The combination of the scenarios. \<open>TgtMean ! n ! i\<close> stands for \<open>TgtMean[i, n]\<close>:
  the hazard-weighted mean, the diagonal of the mixture, and the final matrix (the
  off-diagonal entries of scenario 0, the new diagonal, then the floor).
\<close>

definition TgtMean_fin_of :: "real list \<Rightarrow> real list list \<Rightarrow> nat \<Rightarrow> real list" where
  "TgtMean_fin_of H TgtMean nT =
     map (\<lambda>i. sum_list (map (\<lambda>n. TgtMean ! n ! i * H ! n) [0..<length TgtMean])) [0..<nT]"

definition cov_diag_of ::
  "real list \<Rightarrow> real list list \<Rightarrow> real list list list \<Rightarrow> real list \<Rightarrow> nat \<Rightarrow> real list" where
  "cov_diag_of H TgtMean TgtCov TgtMean_fin nT =
     map (\<lambda>ii. sum_list (map (\<lambda>kk.
            (TgtCov ! kk ! ii ! ii + (TgtMean ! kk ! ii - TgtMean_fin ! ii)\<^sup>2) * H ! kk)
            [0..<length TgtMean])) [0..<nT]"

definition TgtCov_fin_of :: "real list list list \<Rightarrow> real list \<Rightarrow> nat \<Rightarrow> real list list" where
  "TgtCov_fin_of TgtCov cov_diag nT =
     map (\<lambda>i. map (\<lambda>j. cov_floor (if i = j then cov_diag ! i else TgtCov ! 0 ! i ! j))
            [0..<nT]) [0..<nT]"

text \<open>
  \<open>create\<close>. The product \<open>TgtMean * Hcont_mat\<close> needs as many weights as scenarios
  (numpy would also accept a single weight or a single scenario by broadcasting; the
  model covers equal lengths).
\<close>

definition create :: "create_args \<Rightarrow> error + target" where
  "create c =
     bindE (target_periods c) (\<lambda>T_Tgt.
       bindE (conditioning_periods c T_Tgt) (\<lambda>Ts.
         let nS = nScenarios c;
             nT = length T_Tgt;
             H = (case Hcont_arg c of None \<Rightarrow> replicate nS (1 / real nS) | Some h \<Rightarrow> h)
         in bindE (mapE (scenario_target c T_Tgt Ts) [0..<nS]) (\<lambda>scs.
              bindE (if useVar_arg c = 0
                     then Inr (replicate nS (replicate nT (replicate nT 0)))
                     else mapE snd scs) (\<lambda>TgtCov.
                if length H \<noteq> nS then Inl ValueError
                else if nS = 0 then Inl IndexError
                else
                  let TgtMean = map fst scs;
                      TgtMean_fin = TgtMean_fin_of H TgtMean nT;
                      cov_diag = cov_diag_of H TgtMean TgtCov TgtMean_fin nT;
                      TgtCov_fin = TgtCov_fin_of TgtCov cov_diag nT;
                      TgtSigma_fin = map (\<lambda>i. sqrt_or_zero (TgtCov_fin ! i ! i)) [0..<nT]
                  in bindE (stored_im_Tstar c T_Tgt Ts TgtMean_fin) (\<lambda>im.
                       Inr \<lparr>mu_ln = TgtMean_fin, sigma_ln = TgtSigma_fin, T = T_Tgt,
                            cov = TgtCov_fin, cond = cond_arg c, useVar = useVar_arg c,
                            Hcont = H, Tstar = Ts, im_Tstar = im\<rparr>)))))"

definition Hcont_of :: "create_args \<Rightarrow> real list" where
  "Hcont_of c = (case Hcont_arg c of None \<Rightarrow> replicate (nScenarios c) (1 / real (nScenarios c))
                 | Some h \<Rightarrow> h)"

subsection \<open>Record selection: \<open>cs_master.select\<close>\<close>

text \<open>
  The arguments of \<open>select\<close> that the optimisation reads, with two arrays the method
  obtains before it starts: \<open>sim_spec\<close>, the retained simulated spectra
  (\<open>nGM\<close> rows of natural logarithms, one column per period of \<open>self.T\<close>; random in
  the program, an input here), and \<open>sampleBig\<close>, the candidate pool after
  \<open>sampleBig = np.log(sampleBig)\<close> (\<open>search_database\<close> returns strictly positive
  spectra at the periods of \<open>self.T\<close>, so this is a real matrix with one column per
  period). \<open>weights\<close> has three entries.
\<close>

record select_args =
  nGM :: nat
  isScaled :: int
  maxScale :: real
  weights :: "real list"
  nLoop :: nat
  penalty :: real
  tol :: real
  sim_spec :: "real list list"
  sampleBig :: "real list list"

text \<open>The selection being built: \<open>recID\<close>, \<open>finalScaleFac\<close>, \<open>sampleSmall\<close>, and the
  local variable \<open>minID\<close>, which is unbound until Phase 2 first assigns it.\<close>

record selection =
  recID :: "int list"
  finalScaleFac :: "real list"
  sampleSmall :: "real list list"
  minID :: "nat option"

text \<open>
  \<open>ind1\<close> and \<open>ind2\<close>: for each conditioning period, the first index of \<open>self.T\<close> equal
  to it and the first index of \<open>self.T\<close> different from it.
\<close>

definition cond_indices :: "real list \<Rightarrow> real list \<Rightarrow> error + (nat list \<times> nat list)" where
  "cond_indices Ts Tst =
     bindE (mapE (\<lambda>ts. bindE (np_where0 (\<lambda>t. t = ts) Ts) (\<lambda>i1.
                        bindE (np_where0 (\<lambda>t. t \<noteq> ts) Ts) (\<lambda>i2. Inr (i1, i2)))) Tst)
       (\<lambda>ps. Inr (map fst ps, map snd ps))"

text \<open>The scale factor of candidate \<open>j\<close> for row \<open>i\<close> in Phase 1 (lines 693 to 701).\<close>

definition scaleFac1 :: "target \<Rightarrow> select_args \<Rightarrow> nat list \<Rightarrow> nat \<Rightarrow> nat \<Rightarrow> error + real" where
  "scaleFac1 self a ind1 i j =
     (if isScaled a = 1 then
        if cond self = 1 then
          (case Tstar self of None \<Rightarrow> Inl AttributeError
           | Some ts \<Rightarrow>
             (case im_Tstar self of None \<Rightarrow> Inl AttributeError
              | Some im \<Rightarrow>
                 if length ts = 0 then Inl NotFinite
                 else
                   let rec_iml = exp (sum_list (map (\<lambda>k. sampleBig a ! j ! k) ind1)
                                      / real (length ts))
                   in Inr (im / rec_iml)))
        else if cond self = 0 then
          let num = sum_list (map2 (\<lambda>x y. exp x * exp y) (sampleBig a ! j) (sim_spec a ! i));
              den = sum_list (map (\<lambda>x. (exp x)\<^sup>2) (sampleBig a ! j))
          in if den = 0 then Inl NotFinite else Inr (num / den)
        else Inr 1
      else Inr 1)"

text \<open>The scale factor of candidate \<open>j\<close> for slot \<open>i\<close> in Phase 2 (lines 738 to 748).\<close>

definition scaleFac2 :: "target \<Rightarrow> select_args \<Rightarrow> nat list \<Rightarrow> nat \<Rightarrow> nat \<Rightarrow> error + real" where
  "scaleFac2 self a ind1 i j =
     (if isScaled a = 1 then
        if cond self = 1 then
          (case Tstar self of None \<Rightarrow> Inl AttributeError
           | Some ts \<Rightarrow>
             (case im_Tstar self of None \<Rightarrow> Inl AttributeError
              | Some im \<Rightarrow>
                 if length ts = 0 then Inl NotFinite
                 else
                   let rec_Avg = exp (sum_list (map (\<lambda>k. sampleBig a ! j ! k) ind1)
                                      / real (length ts))
                   in Inr (im / rec_Avg)))
        else if cond self = 0 then
          let num = sum_list (map2 (\<lambda>x y. exp x * exp y) (sampleBig a ! j) (sim_spec a ! i));
              den = sum_list (map (\<lambda>x. (exp x)\<^sup>2) (sampleBig a ! j))
          in if den = 0 then Inl NotFinite else Inr (num / den)
        else Inr 1
      else Inr 1)"

text \<open>
  Phase 1, one candidate: the pair \<open>(scaleFac[j], err[j])\<close>. \<open>recID\<close> holds \<open>-1\<close> in the
  rows not yet assigned.
\<close>

definition err1 ::
  "target \<Rightarrow> select_args \<Rightarrow> nat list \<Rightarrow> int list \<Rightarrow> nat \<Rightarrow> nat \<Rightarrow> error + (real \<times> real)" where
  "err1 self a ind1 ids i j =
     bindE (scaleFac1 self a ind1 i j) (\<lambda>s.
       if int j \<in> set ids \<or> s > maxScale a then Inr (s, 1000000)
       else bindE (mapE np_log (map (\<lambda>x. exp x * s) (sampleBig a ! j))) (\<lambda>l.
              Inr (s, sum_list (map2 (\<lambda>x y. (x - y)\<^sup>2) l (sim_spec a ! i)))))"

text \<open>Phase 1, row \<open>i\<close>: scan the pool, take the least error, stop the run if it is
  still \<open>10^6\<close> or more.\<close>

definition phase1_step ::
  "target \<Rightarrow> select_args \<Rightarrow> nat list \<Rightarrow> selection \<Rightarrow> nat \<Rightarrow> error + selection" where
  "phase1_step self a ind1 st i =
     bindE (mapE (err1 self a ind1 (recID st) i) [0..<length (sampleBig a)]) (\<lambda>se.
       let scaleFac = map fst se;
           err = map snd se
       in if err = [] then Inl IndexError
          else
            let r = argsort0 err
            in if Min (set err) \<ge> 1000000 then Inl SystemExit
               else
                 let f = (if isScaled a = 1 then scaleFac ! r else finalScaleFac st ! i)
                 in bindE (mapE np_log (map (\<lambda>x. exp x * f) (sampleBig a ! r))) (\<lambda>row.
                      Inr (st\<lparr>recID := (recID st)[i := int r],
                              finalScaleFac := (finalScaleFac st)[i := f],
                              sampleSmall := (sampleSmall st)[i := row]\<rparr>)))"

definition init_selection :: "target \<Rightarrow> select_args \<Rightarrow> selection" where
  "init_selection self a =
     \<lparr>recID = replicate (nGM a) (- 1),
      finalScaleFac = replicate (nGM a) 1,
      sampleSmall = replicate (nGM a) (replicate (length (T self)) 1),
      minID = None\<rparr>"

definition phase1 :: "target \<Rightarrow> select_args \<Rightarrow> nat list \<Rightarrow> error + selection" where
  "phase1 self a ind1 = foldE (phase1_step self a ind1) [0..<nGM a] (init_selection self a)"

text \<open>The objective of Phase 2 for a trial \<open>sampleSmall\<close>: \<open>devTotal\<close> before the
  exclusion surcharge.\<close>

definition devTotal_of :: "target \<Rightarrow> select_args \<Rightarrow> real list list \<Rightarrow> real" where
  "devTotal_of self a rows =
     (let ks = [0..<length (T self)];
          devMean = map (\<lambda>k. np_mean (col k rows) - mu_ln self ! k) ks;
          devSig = map (\<lambda>k. np_std (col k rows) - sigma_ln self ! k) ks;
          devTotal = weights a ! 0 * sum_list (map (\<lambda>d. d\<^sup>2) devMean)
                     + weights a ! 1 * sum_list (map (\<lambda>d. d\<^sup>2) devSig)
      in if penalty a > 0
         then devTotal
              + sum_list (map (\<lambda>row. real (length (filter
                     (\<lambda>k. exp (row ! k) > exp (mu_ln self ! k + 3 * sigma_ln self ! k)) ks))
                     * penalty a) rows)
         else devTotal)"

text \<open>
  Phase 2, one candidate \<open>j\<close> for slot \<open>i\<close>: the pair \<open>(scaleFac[j], devTotal)\<close>, where
  \<open>rest\<close> and \<open>ids\<close> are \<open>sampleSmall\<close> and \<open>recID\<close> with slot \<open>i\<close> deleted.
\<close>

definition cand2 ::
  "target \<Rightarrow> select_args \<Rightarrow> nat list \<Rightarrow> real list list \<Rightarrow> int list \<Rightarrow> nat \<Rightarrow> nat
     \<Rightarrow> error + (real \<times> real)" where
  "cand2 self a ind1 rest ids i j =
     bindE (scaleFac2 self a ind1 i j) (\<lambda>s.
       bindE (np_log s) (\<lambda>ls.
         let trial = rest @ [map (\<lambda>x. x + ls) (sampleBig a ! j)];
             devTotal = devTotal_of self a trial
         in Inr (s, if s > maxScale a \<or> int j \<in> set ids
                    then devTotal + 1000000 else devTotal)))"

text \<open>The scan over the pool: \<open>if devTotal < minDev: minID = j; minDev = devTotal\<close>.\<close>

fun scan2 ::
  "(nat \<Rightarrow> error + (real \<times> real)) \<Rightarrow> nat list \<Rightarrow> nat option \<times> real
     \<Rightarrow> error + (nat option \<times> real)" where
  "scan2 f [] acc = Inr acc"
| "scan2 f (j # js) acc =
     bindE (f j) (\<lambda>sd.
       scan2 f js (if snd sd < snd acc then (Some j, snd sd) else acc))"

text \<open>Phase 2, slot \<open>i\<close>: delete the slot, scan with \<open>minDev = 100000\<close>, insert
  candidate \<open>minID\<close> at position \<open>i\<close>.\<close>

definition phase2_step ::
  "target \<Rightarrow> select_args \<Rightarrow> nat list \<Rightarrow> selection \<Rightarrow> nat \<Rightarrow> error + selection" where
  "phase2_step self a ind1 st i =
     (let rest = np_delete (sampleSmall st) i;
          ids = np_delete (recID st) i
      in bindE (scan2 (cand2 self a ind1 rest ids i) [0..<length (sampleBig a)]
                  (minID st, 100000)) (\<lambda>md.
           case fst md of
             None \<Rightarrow> Inl UnboundLocalError
           | Some m \<Rightarrow>
               bindE (scaleFac2 self a ind1 i m) (\<lambda>s.
                 bindE (np_log s) (\<lambda>ls.
                   Inr (st\<lparr>finalScaleFac :=
                              (finalScaleFac st)[i := (if isScaled a = 1 then s else 1)],
                           sampleSmall :=
                              take i rest @ [map (\<lambda>x. x + ls) (sampleBig a ! m)] @ drop i rest,
                           recID := take i ids @ [int m] @ drop i ids,
                           minID := Some m\<rparr>)))))"

definition phase2_pass :: "target \<Rightarrow> select_args \<Rightarrow> nat list \<Rightarrow> selection \<Rightarrow> error + selection" where
  "phase2_pass self a ind1 st = foldE (phase2_step self a ind1) [0..<nGM a] st"

text \<open>The state after \<open>n\<close> passes of Phase 2, without the convergence test.\<close>

fun passes :: "target \<Rightarrow> select_args \<Rightarrow> nat list \<Rightarrow> nat \<Rightarrow> selection \<Rightarrow> error + selection" where
  "passes self a ind1 0 st = Inr st"
| "passes self a ind1 (Suc n) st = bindE (phase2_pass self a ind1 st) (passes self a ind1 n)"


text \<open>
  The convergence test (lines 782 to 788): \<open>(medianErr, stdErr)\<close>. With a single
  conditioning period the columns \<open>ind2\<close> are compared, otherwise all columns.
\<close>

definition check_idx :: "target \<Rightarrow> nat list \<Rightarrow> nat list \<Rightarrow> nat list" where
  "check_idx self ind1 ind2 =
     (if cond self = 1 \<and> length ind1 = 1 then ind2 else [0..<length (T self)])"

definition medianErr_of :: "target \<Rightarrow> nat list \<Rightarrow> real list list \<Rightarrow> real" where
  "medianErr_of self idx rows =
     Max (set (map (\<lambda>k. \<bar>exp (np_mean (col k rows)) - exp (mu_ln self ! k)\<bar>
                          / exp (mu_ln self ! k)) idx)) * 100"

definition stdErr_of :: "target \<Rightarrow> nat list \<Rightarrow> real list list \<Rightarrow> real" where
  "stdErr_of self idx rows =
     Max (set (map (\<lambda>k. \<bar>np_std (col k rows) - sigma_ln self ! k\<bar>
                          / sigma_ln self ! k) idx)) * 100"

definition pct_errors ::
  "target \<Rightarrow> nat list \<Rightarrow> nat list \<Rightarrow> real list list \<Rightarrow> error + (real \<times> real)" where
  "pct_errors self ind1 ind2 rows =
     (let idx = check_idx self ind1 ind2
      in if idx = [] then Inl ValueError
         else if rows = [] then Inl NotFinite
         else if \<exists>k \<in> set idx. sigma_ln self ! k = 0 then Inl NotFinite
         else Inr (medianErr_of self idx rows, stdErr_of self idx rows))"

text \<open>
  The loop \<open>for k in range(nLoop)\<close> with its \<open>break\<close>. \<open>prev\<close> holds \<open>medianErr\<close> and
  \<open>stdErr\<close> of the latest pass; the statements after the loop read them, so with
  \<open>nLoop = 0\<close> they are unbound.
\<close>

fun opt_loop ::
  "target \<Rightarrow> select_args \<Rightarrow> nat list \<Rightarrow> nat list \<Rightarrow> nat \<Rightarrow> selection \<Rightarrow> (real \<times> real) option
     \<Rightarrow> error + (selection \<times> real \<times> real)" where
  "opt_loop self a ind1 ind2 0 st prev =
     (case prev of None \<Rightarrow> Inl UnboundLocalError | Some e \<Rightarrow> Inr (st, e))"
| "opt_loop self a ind1 ind2 (Suc n) st prev =
     bindE (phase2_pass self a ind1 st) (\<lambda>st'.
       bindE (pct_errors self ind1 ind2 (sampleSmall st')) (\<lambda>e.
         if fst e < tol a \<and> snd e < tol a then Inr (st', e)
         else opt_loop self a ind1 ind2 n st' (Some e)))"

definition select :: "target \<Rightarrow> select_args \<Rightarrow> error + (selection \<times> real \<times> real)" where
  "select self a =
     bindE (if cond self = 1
            then (case Tstar self of None \<Rightarrow> Inl AttributeError
                  | Some ts \<Rightarrow> cond_indices (T self) ts)
            else Inr ([], []))
       (\<lambda>ind. bindE (phase1 self a (fst ind))
                (\<lambda>st. opt_loop self a (fst ind) (snd ind) (nLoop a) st None))"

subsection \<open>Invariants of the selection\<close>

text \<open>
  Slot \<open>k\<close> is in order: it holds a record of the pool, its scale factor is the one the
  scaling rule gives that record for slot \<open>k\<close> and does not exceed \<open>maxScale\<close>, and its
  row of \<open>sampleSmall\<close> is the scaled spectrum of the record.
\<close>

definition row_ok :: "target \<Rightarrow> select_args \<Rightarrow> nat list \<Rightarrow> selection \<Rightarrow> nat \<Rightarrow> bool" where
  "row_ok self a ind1 st k \<longleftrightarrow>
     (\<exists>r s. recID st ! k = int r \<and> r < length (sampleBig a)
        \<and> scaleFac2 self a ind1 k r = Inr s \<and> s \<le> maxScale a
        \<and> finalScaleFac st ! k = s
        \<and> (0 < s \<longrightarrow> sampleSmall st ! k = map (\<lambda>x. x + ln s) (sampleBig a ! r)))"

definition good_selection :: "target \<Rightarrow> select_args \<Rightarrow> nat list \<Rightarrow> selection \<Rightarrow> bool" where
  "good_selection self a ind1 st \<longleftrightarrow>
     length (recID st) = nGM a \<and> length (finalScaleFac st) = nGM a
     \<and> length (sampleSmall st) = nGM a \<and> distinct (recID st)
     \<and> (\<forall>k < nGM a. row_ok self a ind1 st k)"

text \<open>Either no candidate has been accepted yet, or the current selection has a total
  deviation below the initial value of \<open>minDev\<close>.\<close>

definition settled :: "target \<Rightarrow> select_args \<Rightarrow> selection \<Rightarrow> bool" where
  "settled self a st \<longleftrightarrow>
     minID st = None \<or> devTotal_of self a (sampleSmall st) < 100000"

text \<open>The state of Phase 1 before row \<open>i\<close>: rows below \<open>i\<close> are in order and distinct,
  the others still hold their initial values.\<close>

definition phase1_inv :: "target \<Rightarrow> select_args \<Rightarrow> nat list \<Rightarrow> nat \<Rightarrow> selection \<Rightarrow> bool" where
  "phase1_inv self a ind1 i st \<longleftrightarrow>
     length (recID st) = nGM a \<and> length (finalScaleFac st) = nGM a
     \<and> length (sampleSmall st) = nGM a \<and> minID st = None
     \<and> distinct (take i (recID st))
     \<and> (\<forall>k < i. row_ok self a ind1 st k)
     \<and> (\<forall>k. i \<le> k \<and> k < nGM a \<longrightarrow> recID st ! k = - 1 \<and> finalScaleFac st ! k = 1)"

subsection \<open>Small concrete inputs\<close>

text \<open>A one-period unconditional target and a pool of one record with one simulated
  row \<open>[y]\<close>.\<close>

definition uncond_target :: target where
  "uncond_target =
     \<lparr>mu_ln = [0], sigma_ln = [1], T = [1], cov = [[1]], cond = 0, useVar = 1,
      Hcont = [1], Tstar = None, im_Tstar = None\<rparr>"

definition one_record_args :: "real \<Rightarrow> select_args" where
  "one_record_args y =
     \<lparr>nGM = 1, isScaled = 1, maxScale = 4, weights = [1, 2, 3 / 10], nLoop = 2,
      penalty = 0, tol = 10, sim_spec = [[y]], sampleBig = [[0]]\<rparr>"

text \<open>A target on the periods 0.5 s and 1 s, conditioned on 1 s at the level 2, a pool
  of one record with unit spectrum, a simulated row at the level 2, and the selection a
  run ends with.\<close>

definition cond_target :: target where
  "cond_target =
     \<lparr>mu_ln = [ln 2, ln 2], sigma_ln = [1, 1], T = [1 / 2, 1], cov = [[1, 0], [0, 1]],
      cond = 1, useVar = 1, Hcont = [1], Tstar = Some [1], im_Tstar = Some 2\<rparr>"

definition cond_args :: select_args where
  "cond_args =
     \<lparr>nGM = 1, isScaled = 1, maxScale = 4, weights = [1, 2, 3 / 10], nLoop = 2,
      penalty = 0, tol = 10, sim_spec = [[ln 2, ln 2]], sampleBig = [[0, 0]]\<rparr>"

definition cond_selection :: selection where
  "cond_selection =
     \<lparr>recID = [0], finalScaleFac = [2], sampleSmall = [[ln 2, ln 2]], minID = Some 0\<rparr>"

text \<open>The selection of the only record of a one-record pool.\<close>

definition st_one_record :: "nat option \<Rightarrow> selection" where
  "st_one_record mo = \<lparr>recID = [0], finalScaleFac = [1], sampleSmall = [[0]], minID = mo\<rparr>"

text \<open>Two rows to fill from a pool of one record.\<close>

definition short_pool_args :: select_args where
  "short_pool_args = (one_record_args 0)\<lparr>nGM := 2, sim_spec := [[0], [0]]\<rparr>"

text \<open>A row to fill from an empty pool.\<close>

definition empty_pool_args :: select_args where
  "empty_pool_args = (one_record_args 0)\<lparr>sampleBig := []\<rparr>"


text \<open>Four records on one period and the three selections a run passes through.\<close>

definition c7_args :: select_args where
  "c7_args =
     \<lparr>nGM = 2, isScaled = 0, maxScale = 4, weights = [1, 2, 3 / 10], nLoop = 2,
      penalty = 0, tol = 10, sim_spec = [[- (11 / 10)], [0]],
      sampleBig = [[- (11 / 10)], [19 / 20], [- (19 / 20)], [0]]\<rparr>"

definition c7_init :: selection where
  "c7_init = \<lparr>recID = [0, 3], finalScaleFac = [1, 1],
              sampleSmall = [[- (11 / 10)], [0]], minID = None\<rparr>"

definition c7_converged :: selection where
  "c7_converged = \<lparr>recID = [0, 1], finalScaleFac = [1, 1],
              sampleSmall = [[- (11 / 10)], [19 / 20]], minID = Some 1\<rparr>"

definition c7_again :: selection where
  "c7_again = \<lparr>recID = [2, 1], finalScaleFac = [1, 1],
              sampleSmall = [[- (19 / 20)], [19 / 20]], minID = Some 1\<rparr>"

text \<open>Two records on one period with a negative weight on the error of the mean, the
  selection after Phase 1 and the selection after a pass.\<close>

definition neg_weight_args :: select_args where
  "neg_weight_args =
     \<lparr>nGM = 2, isScaled = 0, maxScale = 4, weights = [- 1000000, 0, 3 / 10], nLoop = 2,
      penalty = 0, tol = 10, sim_spec = [[0], [2]], sampleBig = [[0], [2]]\<rparr>"

definition neg_weight_init :: selection where
  "neg_weight_init = \<lparr>recID = [0, 1], finalScaleFac = [1, 1],
              sampleSmall = [[0], [2]], minID = None\<rparr>"

definition neg_weight_dup :: selection where
  "neg_weight_dup = \<lparr>recID = [1, 1], finalScaleFac = [1, 1],
              sampleSmall = [[2], [2]], minID = Some 1\<rparr>"

text \<open>Three periods with the conditioning period in the middle, and two records that
  agree at the last period.\<close>

definition c2_target :: target where
  "c2_target =
     \<lparr>mu_ln = [0, 0, 0], sigma_ln = [1, 1, 1], T = [1 / 10, 2 / 10, 3 / 10],
      cov = [[1, 0, 0], [0, 1, 0], [0, 0, 1]], cond = 1, useVar = 1,
      Hcont = [1], Tstar = Some [2 / 10], im_Tstar = Some 1\<rparr>"

definition c2_args :: select_args where
  "c2_args =
     \<lparr>nGM = 2, isScaled = 0, maxScale = 4, weights = [1, 2, 3 / 10], nLoop = 2,
      penalty = 0, tol = 10, sim_spec = [[- 1, 0, 5], [1, 0, 5]],
      sampleBig = [[- 1, 0, 5], [1, 0, 5]]\<rparr>"

definition c2_selection :: selection where
  "c2_selection = \<lparr>recID = [0, 1], finalScaleFac = [1, 1],
              sampleSmall = [[- 1, 0, 5], [1, 0, 5]], minID = Some 1\<rparr>"





text \<open>
  Two scenarios on a one-period grid, conditioned on that period, with a model whose
  mean is the scenario number and whose standard deviation is 1; epsilon back-calculated
  from the level 2, or given as 0 for both scenarios.
\<close>

definition c6_args :: create_args where
  "c6_args =
     \<lparr>Periods = [1], Tstar_init = [1], bgmpe = (\<lambda>n t. (real n, 1)), nScenarios = 2,
      Hcont_arg = Some [6 / 10, 4 / 10], T_Tgt_range = [1 / 2, 2], im_Tstar_arg = 2,
      epsilon = None, cond_arg = 1, useVar_arg = 1\<rparr>"

definition c6_target :: target where
  "c6_target =
     \<lparr>mu_ln = [ln 2], sigma_ln = [1 / 10 ^ 5], T = [1], cov = [[1 / 10 ^ 10]],
      cond = 1, useVar = 1, Hcont = [6 / 10, 4 / 10], Tstar = Some [1], im_Tstar = Some 2\<rparr>"

definition c10_args :: create_args where
  "c10_args = c6_args\<lparr>epsilon := Some [0, 0]\<rparr>"

definition c10_target :: target where
  "c10_target =
     \<lparr>mu_ln = [2 / 5], sigma_ln = [sqrt (6 / 25)], T = [1], cov = [[6 / 25]],
      cond = 1, useVar = 1, Hcont = [6 / 10, 4 / 10], Tstar = Some [1],
      im_Tstar = Some (exp (2 / 5))\<rparr>"

section \<open>Properties of the correlation model\<close>

lemma ln_92: "ln (92::real) \<le> 27 / 5"
proof -
  have "(1 + 27 / 20 + (27 / 20)\<^sup>2 / 2 :: real) \<le> exp (27 / 20)"
    by (rule exp_lower_Taylor_quadratic) simp
  then have a: "(13 / 4 :: real) \<le> exp (27 / 20)" by (simp add: power2_eq_square)
  then have "13 / 4 * (13 / 4) \<le> exp (27 / 20 :: real) * exp (27 / 20)"
    by (intro mult_mono) simp_all
  then have b: "(169 / 16 :: real) \<le> exp (27 / 10)"
    by (simp add: exp_add [symmetric])
  then have "169 / 16 * (169 / 16) \<le> exp (27 / 10 :: real) * exp (27 / 10)"
    by (intro mult_mono) simp_all
  then have "(92 :: real) \<le> exp (27 / 5)"
    by (simp add: exp_add [symmetric])
  then have "ln (92::real) \<le> ln (exp (27 / 5))"
    by (subst ln_le_cancel_iff) simp_all
  then show ?thesis by simp
qed

lemma bj_c1_range:
  assumes "0 < a" "a \<le> b" "109 / 1000 \<le> b" "b \<le> 10"
  shows "0 \<le> bj_c1 a b \<and> bj_c1 a b \<le> 1"
proof -
  let ?m = "max a (109 / 1000)"
  let ?x = "ln (b / ?m) * (366 / 1000)"
  have mpos: "0 < ?m" by simp
  have "b / ?m \<le> 92"
  proof -
    have "b \<le> 92 * ?m" using assms by simp
    then show ?thesis using mpos by (simp add: pos_divide_le_eq)
  qed
  moreover have one: "1 \<le> b / ?m" using assms mpos by (simp add: pos_le_divide_eq)
  ultimately have "ln (b / ?m) \<le> ln 92" by (subst ln_le_cancel_iff) simp_all
  then have "ln (b / ?m) \<le> 27 / 5" using ln_92 by linarith
  then have "?x \<le> 2" by simp
  then have lo: "- (pi / 2) \<le> pi / 2 - ?x" using pi_ge_two by linarith
  have "0 \<le> ln (b / ?m)" using one by simp
  then have hi: "pi / 2 - ?x \<le> pi / 2" by simp
  have "0 \<le> cos (pi / 2 - ?x)" using lo hi by (rule cos_ge_zero)
  moreover have "cos (pi / 2 - ?x) \<le> 1" by simp
  ultimately show ?thesis unfolding bj_c1_def by linarith
qed


lemma logistic_range: "0 < 1 - 1 / (1 + exp (x::real)) \<and> 1 - 1 / (1 + exp x) < 1"
proof -
  have pos: "0 < 1 + exp x" by (simp add: add_pos_pos)
  have "1 < 1 + exp x" by simp
  then have "1 / (1 + exp x) < 1" using pos by (subst divide_less_eq_1_pos) simp_all
  moreover have "0 < 1 / (1 + exp x)" using pos by simp
  ultimately show ?thesis by linarith
qed

lemma bj_c2_range:
  assumes "99 / 10000 < a" "a \<le> b"
  shows "0 \<le> bj_c2 a b \<and> bj_c2 a b \<le> 1"
proof -
  define e where "e = 1 - 1 / (1 + exp (100 * b - 5))"
  define q where "q = (b - a) / (b - 99 / 10000)"
  define p where "p = e * q"
  have e0: "0 \<le> e" and e1: "e \<le> 1"
    using logistic_range [of "100 * b - 5"] unfolding e_def by linarith+
  have q0: "0 \<le> q" using assms unfolding q_def by simp
  have q1: "q \<le> 1" using assms unfolding q_def by (simp add: field_simps)
  have p0: "0 \<le> p" unfolding p_def using e0 q0 by (rule mult_nonneg_nonneg)
  have "e * q \<le> 1 * 1" using e1 q1 e0 q0 by (intro mult_mono) simp_all
  then have p1: "p \<le> 1" unfolding p_def by simp
  have eq: "bj_c2 a b = 1 - (105 / 1000) * p"
    unfolding bj_c2_def p_def e_def q_def by simp
  show ?thesis unfolding eq using p0 p1 by (intro conjI) linarith+
qed

lemma bj_c4_range:
  assumes "0 < a" "a \<le> b" "109 / 1000 \<le> b" "b \<le> 10"
  shows "0 \<le> bj_c4 a b \<and> bj_c4 a b \<le> 1"
proof -
  define c where "c = bj_c1 a b"
  define s where "s = sqrt c"
  define k where "k = 1 + cos (pi * a / (109 / 1000))"
  define t where "t = (s - c) * k"
  have c: "0 \<le> c" "c \<le> 1" using bj_c1_range [OF assms] unfolding c_def by simp_all
  have s1: "c \<le> s"
  proof -
    have "s * s \<le> s * 1"
      unfolding s_def using c by (intro mult_left_mono) simp_all
    then show ?thesis using c unfolding s_def by simp
  qed
  have s2: "s \<le> 1" using c unfolding s_def by simp
  have k0: "0 \<le> k" unfolding k_def using cos_ge_minus_one [of "pi * a / (109 / 1000)"] by linarith
  have k2: "k \<le> 2" unfolding k_def using cos_le_one [of "pi * a / (109 / 1000)"] by linarith
  have d0: "0 \<le> s - c" using s1 by simp
  have t0: "0 \<le> t" unfolding t_def using d0 k0 by (rule mult_nonneg_nonneg)
  have "t \<le> (s - c) * 2" unfolding t_def using k2 d0 by (rule mult_left_mono)
  then have t1: "t \<le> 2 * s - 2 * c" by (simp add: algebra_simps)
  have eq: "bj_c4 a b = c + (1 / 2) * t"
    unfolding bj_c4_def t_def k_def s_def c_def by simp
  show ?thesis unfolding eq using t0 t1 c s2 by (intro conjI) linarith+
qed

lemma Baker_Jayaram_2008_cases:
  assumes "99 / 10000 < b" "a \<le> b"
  shows "Baker_Jayaram_2008 a b =
    Inr (if b \<le> 109 / 1000 then bj_c2 a b
         else if a > 109 / 1000 then bj_c1 a b
         else if b < 2 / 10 then min (bj_c2 a b) (bj_c4 a b)
         else bj_c4 a b)"
proof -
  have mm: "min a b = a" "max a b = b" using assms by simp_all
  show ?thesis using assms(1)
    unfolding Baker_Jayaram_2008_def mm Let_def bj_c4_def bj_c1_def bj_c2_def
    by simp
qed

lemma Baker_Jayaram_2008_ordered:
  assumes "1 / 100 \<le> a" "a \<le> b" "b \<le> 10"
  shows "\<exists>r. Baker_Jayaram_2008 a b = Inr r \<and> 0 \<le> r \<and> r \<le> 1"
proof -
  have a: "99 / 10000 < a" "0 < a" "99 / 10000 < b" using assms by simp_all
  note eq = Baker_Jayaram_2008_cases [OF a(3) assms(2)]
  have c2: "0 \<le> bj_c2 a b \<and> bj_c2 a b \<le> 1" using bj_c2_range [OF a(1) assms(2)] .
  show ?thesis
  proof (cases "b \<le> 109 / 1000")
    case True
    then show ?thesis unfolding eq using c2 by simp
  next
    case False
    then have b: "109 / 1000 \<le> b" by simp
    have c1: "0 \<le> bj_c1 a b \<and> bj_c1 a b \<le> 1" using bj_c1_range [OF a(2) assms(2) b assms(3)] .
    have c4: "0 \<le> bj_c4 a b \<and> bj_c4 a b \<le> 1" using bj_c4_range [OF a(2) assms(2) b assms(3)] .
    show ?thesis unfolding eq using False c1 c2 c4 by (simp add: min_def)
  qed
qed

lemma Baker_Jayaram_2008_sym: "Baker_Jayaram_2008 p1 p2 = Baker_Jayaram_2008 p2 p1"
  by (simp add: Baker_Jayaram_2008_def min.commute max.commute)

lemma Baker_Jayaram_2008_range:
  assumes "1 / 100 \<le> p1" "p1 \<le> 10" "1 / 100 \<le> p2" "p2 \<le> 10"
  shows "\<exists>r. Baker_Jayaram_2008 p1 p2 = Inr r \<and> 0 \<le> r \<and> r \<le> 1"
proof (cases "p1 \<le> p2")
  case True
  then show ?thesis using assms Baker_Jayaram_2008_ordered [of p1 p2] by simp
next
  case False
  then have "p2 \<le> p1" by simp
  then show ?thesis using assms Baker_Jayaram_2008_ordered [of p2 p1]
    by (simp add: Baker_Jayaram_2008_sym [of p1 p2])
qed


text \<open>
  The diagonal in real arithmetic. Up to \<open>t_max = 0.109\<close> the result is \<open>c2\<close>, whose
  correction term has the factor \<open>t_max - t_min = 0\<close>; above, it is
  \<open>c1 = 1 - cos(pi/2 - 0.366 * ln 1)\<close>.
\<close>

lemma Baker_Jayaram_2008_diag:
  "0 < p \<Longrightarrow> p \<noteq> 99 / 10000 \<Longrightarrow> Baker_Jayaram_2008 p p = Inr 1"
  by (auto simp add: Baker_Jayaram_2008_def Let_def)

lemma Baker_Jayaram_2008_diag_c1:
  "109 / 1000 < p \<Longrightarrow> Baker_Jayaram_2008 p p = Inr (bj_c1 p p) \<and> bj_c1 p p = 1 - cos (pi / 2)"
  by (auto simp add: Baker_Jayaram_2008_def Let_def bj_c1_def)

lemma Baker_Jayaram_2008_tiny:
  "Baker_Jayaram_2008 (1 / 1000) (5 / 1000) = Inr r \<Longrightarrow> 1 < r"
proof -
  assume h: "Baker_Jayaram_2008 (1 / 1000) (5 / 1000) = Inr r"
  have "1 / (1 + exp (- (9 / 2) :: real)) < 1"
    using logistic_range [of "- (9 / 2)"] by linarith
  then show ?thesis using h
    by (simp add: Baker_Jayaram_2008_def Let_def field_simps split: if_splits)
qed

text \<open>
  Claim C8, as stated, fails: at \<open>p1 = p2 = 0.0099\<close> the quotient in \<open>c2\<close> is \<open>0/0\<close>, so
  the result is not 1; and for the pair \<open>(0.001, 0.005)\<close> the denominator
  \<open>t_max - 0.0099\<close> is negative and the returned coefficient exceeds 1.
\<close>

theorem C8_counterexample:
  "Baker_Jayaram_2008 (99 / 10000) (99 / 10000) = Inl NotFinite
   \<and> \<not> isl (Baker_Jayaram_2008 (1 / 1000) (5 / 1000))
   \<and> 1 < projr (Baker_Jayaram_2008 (1 / 1000) (5 / 1000))"
proof -
  have a: "Baker_Jayaram_2008 (99 / 10000) (99 / 10000) = Inl NotFinite"
    by (simp add: Baker_Jayaram_2008_def)
  have b: "\<not> isl (Baker_Jayaram_2008 (1 / 1000) (5 / 1000))"
    by (simp add: Baker_Jayaram_2008_def Let_def)
  then obtain r where r: "Baker_Jayaram_2008 (1 / 1000) (5 / 1000) = Inr r"
    by (cases "Baker_Jayaram_2008 (1 / 1000) (5 / 1000)") auto
  from Baker_Jayaram_2008_tiny [OF r] r a b show ?thesis by simp
qed

text \<open>
  Claim C8, amended: the correlation is symmetric for all arguments; for periods in the
  range 0.01 s to 10 s (the range of the Baker and Jayaram model) it is a number in
  \<open>[-1, 1]\<close> (indeed in \<open>[0, 1]\<close>); \<open>correlation(p, p) = 1\<close> for every period \<open>p\<close> with
  \<open>0 < p \<le> 0.109\<close> other than 0.0099, where the result is \<open>c2 = 1 - 0\<close>; and for
  \<open>q > 0.109\<close> the diagonal is \<open>c1 = 1 - cos(pi/2)\<close>, which is 1 in exact arithmetic only
  (the double nearest to \<open>pi/2\<close> has a cosine of about \<open>6e-17\<close>, so the program returns
  \<open>0.9999999999999999\<close> there).
\<close>

theorem C8_correlation_amended:
  "Baker_Jayaram_2008 p1 p2 = Baker_Jayaram_2008 p2 p1
   \<and> (1 / 100 \<le> p1 \<and> p1 \<le> 10 \<and> 1 / 100 \<le> p2 \<and> p2 \<le> 10
        \<longrightarrow> (\<exists>r. Baker_Jayaram_2008 p1 p2 = Inr r \<and> - 1 \<le> r \<and> r \<le> 1))
   \<and> (0 < p \<and> p \<le> 109 / 1000 \<and> p \<noteq> 99 / 10000 \<longrightarrow> Baker_Jayaram_2008 p p = Inr 1)
   \<and> (109 / 1000 < q
        \<longrightarrow> Baker_Jayaram_2008 q q = Inr (bj_c1 q q) \<and> bj_c1 q q = 1 - cos (pi / 2))"
proof (intro conjI impI)
  show "Baker_Jayaram_2008 p1 p2 = Baker_Jayaram_2008 p2 p1"
    by (rule Baker_Jayaram_2008_sym)
next
  assume "1 / 100 \<le> p1 \<and> p1 \<le> 10 \<and> 1 / 100 \<le> p2 \<and> p2 \<le> 10"
  then obtain r where "Baker_Jayaram_2008 p1 p2 = Inr r" "0 \<le> r" "r \<le> 1"
    using Baker_Jayaram_2008_range [of p1 p2] by auto
  then show "\<exists>r. Baker_Jayaram_2008 p1 p2 = Inr r \<and> - 1 \<le> r \<and> r \<le> 1"
    by (intro exI [of _ r]) simp
next
  assume "0 < p \<and> p \<le> 109 / 1000 \<and> p \<noteq> 99 / 10000"
  then show "Baker_Jayaram_2008 p p = Inr 1"
    by (simp add: Baker_Jayaram_2008_diag)
next
  assume "109 / 1000 < q"
  then show "Baker_Jayaram_2008 q q = Inr (bj_c1 q q)" "bj_c1 q q = 1 - cos (pi / 2)"
    using Baker_Jayaram_2008_diag_c1 [of q] by blast+
qed

text \<open>
  The amended statement at the periods 1 s and 2 s, and on the diagonal at 0.05 s and
  at 1 s.
\<close>

theorem C8_correlation_amended_witness:
  "(1 / 100 \<le> (1::real) \<and> (1::real) \<le> 10 \<and> 1 / 100 \<le> (2::real) \<and> (2::real) \<le> 10)
   \<and> (0 < (1 / 20 :: real) \<and> (1 / 20 :: real) \<le> 109 / 1000 \<and> (1 / 20 :: real) \<noteq> 99 / 10000)
   \<and> 109 / 1000 < (1::real)
   \<and> Baker_Jayaram_2008 1 2 = Baker_Jayaram_2008 2 1
   \<and> (\<exists>r. Baker_Jayaram_2008 1 2 = Inr r \<and> - 1 \<le> r \<and> r \<le> 1)
   \<and> Baker_Jayaram_2008 (1 / 20) (1 / 20) = Inr 1
   \<and> Baker_Jayaram_2008 1 1 = Inr (bj_c1 1 1)
   \<and> bj_c1 1 1 = 1 - cos (pi / 2)"
proof -
  have h1: "1 / 100 \<le> (1::real) \<and> (1::real) \<le> 10 \<and> 1 / 100 \<le> (2::real) \<and> (2::real) \<le> 10"
    by simp
  have h2: "0 < (1 / 20 :: real) \<and> (1 / 20 :: real) \<le> 109 / 1000 \<and> (1 / 20 :: real) \<noteq> 99 / 10000"
    by simp
  have h3: "109 / 1000 < (1::real)" by simp
  show ?thesis using C8_correlation_amended [of 1 2 "1 / 20" 1] h1 h2 h3 by blast
qed

section \<open>Iteration with failure\<close>

lemma bindE_Inl [simp]: "bindE (Inl e) f = Inl e"
  by (simp add: bindE_def)

lemma bindE_Inr [simp]: "bindE (Inr v) f = f v"
  by (simp add: bindE_def)

lemma bindE_eq_Inr: "bindE m f = Inr y \<longleftrightarrow> (\<exists>v. m = Inr v \<and> f v = Inr y)"
  by (cases m) simp_all

lemma mapE_length: "mapE f xs = Inr ys \<Longrightarrow> length ys = length xs"
  by (induction xs arbitrary: ys) (auto simp: bindE_eq_Inr)

lemma mapE_nth: "mapE f xs = Inr ys \<Longrightarrow> i < length xs \<Longrightarrow> f (xs ! i) = Inr (ys ! i)"
proof (induction xs arbitrary: ys i)
  case Nil
  then show ?case by simp
next
  case (Cons x xs)
  then show ?case by (cases i) (auto simp: bindE_eq_Inr)
qed

lemma mapE_all_Inr: "(\<And>x. x \<in> set xs \<Longrightarrow> \<exists>y. f x = Inr y) \<Longrightarrow> \<exists>ys. mapE f xs = Inr ys"
proof (induction xs)
  case Nil
  then show ?case by simp
next
  case (Cons x xs)
  then obtain y ys where "f x = Inr y" "mapE f xs = Inr ys" by (meson list.set_intros)
  then show ?case by simp
qed

lemma foldE_append: "foldE f (xs @ ys) s = bindE (foldE f xs s) (foldE f ys)"
proof (induction xs arbitrary: s)
  case Nil
  then show ?case by simp
next
  case (Cons x xs)
  then show ?case by (cases "f s x") simp_all
qed

lemma foldE_upt_invariant:
  assumes "foldE f [0..<n] s = Inr s'"
    and "P 0 s"
    and "\<And>i t t'. i < n \<Longrightarrow> P i t \<Longrightarrow> f t i = Inr t' \<Longrightarrow> P (Suc i) t'"
  shows "P n s'"
  using assms
proof (induction n arbitrary: s')
  case 0
  then show ?case by simp
next
  case (Suc n)
  from Suc.prems(1) obtain t where t: "foldE f [0..<n] s = Inr t" and step: "f t n = Inr s'"
    by (auto simp: foldE_append bindE_eq_Inr)
  have "P n t" using Suc.IH [OF t Suc.prems(2)] Suc.prems(3) by simp
  then show ?case using step Suc.prems(3) by blast
qed

section \<open>Scale factors\<close>

lemma scaleFac2_eq_scaleFac1: "scaleFac2 self a ind1 i j = scaleFac1 self a ind1 i j"
  by (simp add: scaleFac2_def scaleFac1_def)

lemma ls_expand:
  "sum_list (map2 (\<lambda>x y. (c * exp x - exp y)\<^sup>2) xs ys) =
     c\<^sup>2 * sum_list (map2 (\<lambda>x y. (exp x)\<^sup>2) xs ys)
     - 2 * c * sum_list (map2 (\<lambda>x y. exp x * exp y) xs ys)
     + sum_list (map2 (\<lambda>x y. (exp y :: real)\<^sup>2) xs ys)"
  by (induction xs ys rule: list_induct2') (simp_all add: algebra_simps power2_eq_square)

lemma map2_fst_only:
  "length xs = length ys \<Longrightarrow> map2 (\<lambda>x y. f x) xs ys = map f xs"
  by (induction xs ys rule: list_induct2) simp_all

lemma sum_sq_exp_pos: "xs \<noteq> [] \<Longrightarrow> 0 < sum_list (map (\<lambda>x. (exp (x::real))\<^sup>2) xs)"
proof (induction xs)
  case Nil
  then show ?case by simp
next
  case (Cons x xs)
  have "0 \<le> sum_list (map (\<lambda>x. (exp (x::real))\<^sup>2) xs)"
    by (rule sum_list_nonneg) auto
  moreover have "0 < (exp x)\<^sup>2" by simp
  ultimately have "0 < (exp x)\<^sup>2 + sum_list (map (\<lambda>x. (exp (x::real))\<^sup>2) xs)"
    by (intro add_pos_nonneg)
  then show ?case by simp
qed

lemma least_squares_optimal:
  assumes len: "length xs = length ys" and ne: "xs \<noteq> []"
  defines "U \<equiv> sum_list (map (\<lambda>x. (exp (x::real))\<^sup>2) xs)"
  defines "V \<equiv> sum_list (map2 (\<lambda>x y. exp x * exp (y::real)) xs ys)"
  shows "sum_list (map2 (\<lambda>x y. (V / U * exp x - exp y)\<^sup>2) xs ys)
         \<le> sum_list (map2 (\<lambda>x y. (c * exp x - exp y)\<^sup>2) xs ys)"
proof -
  define W where "W = sum_list (map2 (\<lambda>x y. (exp (y::real))\<^sup>2) xs ys)"
  have U: "sum_list (map2 (\<lambda>x y. (exp (x::real))\<^sup>2) xs ys) = U"
    unfolding U_def using len by (simp add: map2_fst_only)
  have Upos: "0 < U" unfolding U_def using ne by (rule sum_sq_exp_pos)
  have f: "\<And>d. sum_list (map2 (\<lambda>x y. (d * exp x - exp y)\<^sup>2) xs ys) = d\<^sup>2 * U - 2 * d * V + W"
    unfolding ls_expand U V_def W_def ..
  have "(c\<^sup>2 * U - 2 * c * V + W) - ((V / U)\<^sup>2 * U - 2 * (V / U) * V + W) = (c * U - V)\<^sup>2 / U"
    using Upos by (simp add: field_simps power2_eq_square)
  moreover have "0 \<le> (c * U - V)\<^sup>2 / U" using Upos by simp
  ultimately show ?thesis unfolding f by linarith
qed

lemma scaleFac2_uncond_example:
  "scaleFac2 uncond_target (one_record_args 0) [] 0 0 = Inr 1"
  "scaleFac2 uncond_target (one_record_args (ln 2)) [] 0 0 = Inr 2"
  by (simp_all add: scaleFac2_def uncond_target_def one_record_args_def)

text \<open>A conditional run: the index lists of \<open>select\<close>, Phase 1, a pass, the errors
  at \<open>ind2\<close>, and the result.\<close>

lemma cond_run_indices: "cond_indices (T cond_target) [1] = Inr ([1], [0])"
  by (simp add: cond_indices_def np_where0_def cond_target_def)

lemmas cond_run_defs = phase1_def init_selection_def phase1_step_def err1_def scaleFac1_def
  scaleFac2_def np_log_def argsort0_def phase2_pass_def phase2_step_def cand2_def
  devTotal_of_def np_delete_def np_mean_def np_std_def col_def Let_def

lemma cond_run_phase1:
  "phase1 cond_target cond_args [1] = Inr (cond_selection\<lparr>minID := None\<rparr>)"
  by (simp add: cond_run_defs cond_target_def cond_args_def cond_selection_def)

lemma cond_run_pass:
  "phase2_pass cond_target cond_args [1] (cond_selection\<lparr>minID := mo\<rparr>) = Inr cond_selection"
  by (simp add: cond_run_defs cond_target_def cond_args_def cond_selection_def)

lemma cond_run_errors:
  "pct_errors cond_target [1] [0] (sampleSmall cond_selection) = Inr (0, 100)"
  by (simp add: pct_errors_def check_idx_def medianErr_of_def stdErr_of_def col_def
        np_mean_def np_std_def cond_target_def cond_selection_def)

lemma cond_run_select: "select cond_target cond_args = Inr (cond_selection, 0, 100)"
proof -
  have n: "nLoop cond_args = Suc (Suc 0)" "tol cond_args = 10" by (simp_all add: cond_args_def)
  have c: "cond cond_target = 1" "Tstar cond_target = Some [1]" by (simp_all add: cond_target_def)
  have p: "phase2_pass cond_target cond_args [1] cond_selection = Inr cond_selection"
    using cond_run_pass [of "Some 0"] by (simp add: cond_selection_def)
  show ?thesis using cond_run_indices cond_run_phase1 cond_run_pass [of None] p cond_run_errors
    by (simp add: select_def c n)
qed

text \<open>
  Claim C1, as stated, fails in the unconditional mode: with the target unchanged, the
  Phase 2 scale factor of a candidate follows the simulated row (1 for the row \<open>[0]\<close>,
  2 for the row \<open>[ln 2]\<close>), so it is benchmarked against \<open>sim_spec[i,:]\<close>.
\<close>

theorem C1_counterexample:
  "scaleFac2 uncond_target (one_record_args 0) [] 0 0 = Inr 1
   \<and> scaleFac2 uncond_target (one_record_args (ln 2)) [] 0 0 = Inr 2"
  by (simp add: scaleFac2_uncond_example)

text \<open>
  Claim C1, amended: in every Phase 2 pass, for every slot \<open>i\<close> and candidate \<open>j\<close>, the
  scale factor is computed by the same rule as in Phase 1. In the conditional mode it
  is the target conditioning intensity level divided by the candidate's own average
  intensity over \<open>T*\<close>; in the unconditional mode it is the scalar that is least-squares
  optimal (in linear space) with respect to the simulated row \<open>i\<close>, as in Phase 1.
\<close>

theorem C1_scale_factor_amended:
  "scaleFac2 self a ind1 i j = scaleFac1 self a ind1 i j
   \<and> (isScaled a = 1 \<and> cond self = 1 \<and> Tstar self = Some ts \<and> ts \<noteq> [] \<and> im_Tstar self = Some im
        \<longrightarrow> scaleFac2 self a ind1 i j
            = Inr (im / exp (sum_list (map (\<lambda>k. sampleBig a ! j ! k) ind1) / real (length ts))))
   \<and> (isScaled a = 1 \<and> cond self = 0 \<and> sampleBig a ! j \<noteq> []
        \<and> length (sampleBig a ! j) = length (sim_spec a ! i)
        \<longrightarrow> (\<exists>s. scaleFac2 self a ind1 i j = Inr s
               \<and> (\<forall>c. sum_list (map2 (\<lambda>x y. (s * exp x - exp y)\<^sup>2) (sampleBig a ! j) (sim_spec a ! i))
                     \<le> sum_list (map2 (\<lambda>x y. (c * exp x - exp y)\<^sup>2) (sampleBig a ! j) (sim_spec a ! i)))))"
proof (intro conjI impI)
  show "scaleFac2 self a ind1 i j = scaleFac1 self a ind1 i j"
    by (rule scaleFac2_eq_scaleFac1)
next
  assume "isScaled a = 1 \<and> cond self = 1 \<and> Tstar self = Some ts \<and> ts \<noteq> [] \<and> im_Tstar self = Some im"
  then show "scaleFac2 self a ind1 i j
      = Inr (im / exp (sum_list (map (\<lambda>k. sampleBig a ! j ! k) ind1) / real (length ts)))"
    by (simp add: scaleFac2_def)
next
  assume h: "isScaled a = 1 \<and> cond self = 0 \<and> sampleBig a ! j \<noteq> []
        \<and> length (sampleBig a ! j) = length (sim_spec a ! i)"
  let ?xs = "sampleBig a ! j" and ?ys = "sim_spec a ! i"
  let ?U = "sum_list (map (\<lambda>x. (exp x)\<^sup>2) ?xs)"
  let ?V = "sum_list (map2 (\<lambda>x y. exp x * exp y) ?xs ?ys)"
  have "0 < ?U" using h by (intro sum_sq_exp_pos) simp
  then have eq: "scaleFac2 self a ind1 i j = Inr (?V / ?U)"
    using h by (simp add: scaleFac2_def)
  have "\<forall>c. sum_list (map2 (\<lambda>x y. (?V / ?U * exp x - exp y)\<^sup>2) ?xs ?ys)
                     \<le> sum_list (map2 (\<lambda>x y. (c * exp x - exp y)\<^sup>2) ?xs ?ys)"
    using h least_squares_optimal [of ?xs ?ys] by blast
  with eq show "\<exists>s. scaleFac2 self a ind1 i j = Inr s
               \<and> (\<forall>c. sum_list (map2 (\<lambda>x y. (s * exp x - exp y)\<^sup>2) ?xs ?ys)
                     \<le> sum_list (map2 (\<lambda>x y. (c * exp x - exp y)\<^sup>2) ?xs ?ys))"
    by blast
qed

text \<open>
  The amended statement on two runs. Conditional: on the periods 0.5 s and 1 s with
  \<open>T* = 1\<close> the index lists are \<open>ind1 = [1]\<close> and \<open>ind2 = [0]\<close>, the factor of the record
  is \<open>2 / exp 0\<close>, and \<open>select\<close> returns the record scaled by 2. Unconditional: the factor
  for the simulated row \<open>[ln 2]\<close> is 2 and is least-squares optimal.
\<close>

theorem C1_scale_factor_amended_witness:
  "(isScaled cond_args = 1 \<and> cond cond_target = 1 \<and> Tstar cond_target = Some [1]
      \<and> [1::real] \<noteq> [] \<and> im_Tstar cond_target = Some 2)
   \<and> cond_indices (T cond_target) [1] = Inr ([1], [0])
   \<and> scaleFac2 cond_target cond_args [1] 0 0 = Inr 2
   \<and> select cond_target cond_args = Inr (cond_selection, 0, 100)
   \<and> finalScaleFac cond_selection = [2]
   \<and> (isScaled (one_record_args (ln 2)) = 1 \<and> cond uncond_target = 0
      \<and> sampleBig (one_record_args (ln 2)) ! 0 \<noteq> []
      \<and> length (sampleBig (one_record_args (ln 2)) ! 0) = length (sim_spec (one_record_args (ln 2)) ! 0))
   \<and> scaleFac1 uncond_target (one_record_args (ln 2)) [] 0 0 = Inr 2
   \<and> (\<forall>c::real. (2 * 1 - 2)\<^sup>2 \<le> (c * 1 - 2)\<^sup>2)"
proof -
  have h1: "isScaled cond_args = 1 \<and> cond cond_target = 1 \<and> Tstar cond_target = Some [1]
      \<and> [1::real] \<noteq> [] \<and> im_Tstar cond_target = Some 2"
    by (simp add: cond_args_def cond_target_def)
  have h2: "isScaled (one_record_args (ln 2)) = 1 \<and> cond uncond_target = 0
      \<and> sampleBig (one_record_args (ln 2)) ! 0 \<noteq> []
      \<and> length (sampleBig (one_record_args (ln 2)) ! 0) = length (sim_spec (one_record_args (ln 2)) ! 0)"
    by (simp add: one_record_args_def uncond_target_def)
  note t1 = C1_scale_factor_amended [of cond_target cond_args "[1]" 0 0 "[1]" 2]
  have "scaleFac2 cond_target cond_args [1] 0 0
      = Inr (2 / exp (sum_list (map (\<lambda>k. sampleBig cond_args ! 0 ! k) [1]) / real (length [1::real])))"
    using t1 h1 by blast
  then have a: "scaleFac2 cond_target cond_args [1] 0 0 = Inr 2"
    by (simp add: cond_args_def)
  have f: "finalScaleFac cond_selection = [2]" by (simp add: cond_selection_def)
  note t2 = C1_scale_factor_amended [of uncond_target "one_record_args (ln 2)" "[]" 0 0 "[]" 0]
  have "scaleFac2 uncond_target (one_record_args (ln 2)) [] 0 0
      = scaleFac1 uncond_target (one_record_args (ln 2)) [] 0 0"
    using t2 by blast
  then have b: "scaleFac1 uncond_target (one_record_args (ln 2)) [] 0 0 = Inr 2"
    by (simp add: scaleFac2_uncond_example)
  obtain s where s: "scaleFac2 uncond_target (one_record_args (ln 2)) [] 0 0 = Inr s"
     and opt: "\<forall>c. sum_list (map2 (\<lambda>x y. (s * exp x - exp y)\<^sup>2)
                      (sampleBig (one_record_args (ln 2)) ! 0) (sim_spec (one_record_args (ln 2)) ! 0))
                   \<le> sum_list (map2 (\<lambda>x y. (c * exp x - exp y)\<^sup>2)
                      (sampleBig (one_record_args (ln 2)) ! 0) (sim_spec (one_record_args (ln 2)) ! 0))"
    using t2 h2 by blast
  have "s = 2" using s by (simp add: scaleFac2_uncond_example)
  with opt have c: "\<forall>c::real. (2 * 1 - 2)\<^sup>2 \<le> (c * 1 - 2)\<^sup>2"
    by (simp add: one_record_args_def)
  show ?thesis using h1 h2 a b c f cond_run_indices cond_run_select by blast
qed

section \<open>Means and deviations do not depend on the order of the rows\<close>

lemma sum_list_map_mset: "mset xs = mset ys \<Longrightarrow> sum_list (map f xs) = sum_list (map f ys :: real list)"
proof -
  assume "mset xs = mset ys"
  then have "sum_mset (image_mset f (mset xs)) = sum_mset (image_mset f (mset ys))" by simp
  then show ?thesis by (simp only: mset_map [symmetric] sum_mset_sum_list)
qed

lemma col_mset: "mset rows = mset rows' \<Longrightarrow> mset (col k rows) = mset (col k rows')"
  by (simp add: col_def)

lemma np_mean_mset: "mset xs = mset ys \<Longrightarrow> np_mean xs = np_mean ys"
  using sum_list_map_mset [of xs ys "\<lambda>x. x"] mset_eq_length [of xs ys]
  by (simp add: np_mean_def)

lemma np_std_mset: "mset xs = mset ys \<Longrightarrow> np_std xs = np_std ys"
  using sum_list_map_mset [of xs ys "\<lambda>x. (x - np_mean ys)\<^sup>2"] mset_eq_length [of xs ys]
    np_mean_mset [of xs ys]
  by (simp add: np_std_def)

lemma devTotal_of_mset:
  assumes "mset rows = mset rows'"
  shows "devTotal_of self a rows = devTotal_of self a rows'"
proof -
  have m: "\<And>k. np_mean (col k rows) = np_mean (col k rows')"
    using assms by (intro np_mean_mset col_mset)
  have s: "\<And>k. np_std (col k rows) = np_std (col k rows')"
    using assms by (intro np_std_mset col_mset)
  have p: "\<And>f :: real list \<Rightarrow> real. sum_list (map f rows) = sum_list (map f rows')"
    using assms by (rule sum_list_map_mset)
  show ?thesis unfolding devTotal_of_def Let_def m s p ..
qed

lemma devTotal_of_nonneg:
  assumes "0 \<le> weights a ! 0" "0 \<le> weights a ! 1"
  shows "0 \<le> devTotal_of self a rows"
proof -
  define A where "A = sum_list (map (\<lambda>d. d\<^sup>2)
      (map (\<lambda>k. np_mean (col k rows) - mu_ln self ! k) [0..<length (T self)]))"
  define B where "B = sum_list (map (\<lambda>d. d\<^sup>2)
      (map (\<lambda>k. np_std (col k rows) - sigma_ln self ! k) [0..<length (T self)]))"
  define C where "C = sum_list (map (\<lambda>row. real (length (filter
                     (\<lambda>k. exp (row ! k) > exp (mu_ln self ! k + 3 * sigma_ln self ! k))
                     [0..<length (T self)])) * penalty a) rows)"
  have eq: "devTotal_of self a rows =
      (if penalty a > 0 then weights a ! 0 * A + weights a ! 1 * B + C
       else weights a ! 0 * A + weights a ! 1 * B)"
    unfolding devTotal_of_def Let_def A_def B_def C_def ..
  have A: "0 \<le> A" unfolding A_def by (rule sum_list_nonneg) auto
  have B: "0 \<le> B" unfolding B_def by (rule sum_list_nonneg) auto
  have C: "0 < penalty a \<Longrightarrow> 0 \<le> C" unfolding C_def by (rule sum_list_nonneg) auto
  have AB: "0 \<le> weights a ! 0 * A + weights a ! 1 * B"
    using assms A B by (intro add_nonneg_nonneg mult_nonneg_nonneg)
  show ?thesis unfolding eq using AB C by simp
qed

section \<open>Deleting and re-inserting a slot\<close>

lemma np_delete_insert:
  assumes "i < length xs"
  shows "take i (np_delete xs i) @ [v] @ drop i (np_delete xs i) = xs[i := v]"
proof -
  have l: "length (take i xs) = i" using assms by simp
  have a: "take i (np_delete xs i) = take i xs"
    unfolding np_delete_def using l by simp
  have b: "drop i (np_delete xs i) = drop (Suc i) xs"
    unfolding np_delete_def using l by simp
  show ?thesis unfolding a b using assms by (simp add: upd_conv_take_nth_drop)
qed

lemma length_np_delete: "i < length xs \<Longrightarrow> length (np_delete xs i) = length xs - 1"
  by (auto simp: np_delete_def)

lemma mset_np_delete:
  assumes "i < length xs"
  shows "mset (np_delete xs i @ [xs ! i]) = mset xs"
proof -
  have "mset xs = mset (take i xs @ xs ! i # drop (Suc i) xs)"
    using id_take_nth_drop [OF assms] by simp
  then show ?thesis by (simp add: np_delete_def)
qed

lemma mset_insert_at: "mset (take i ys @ [v] @ drop i ys) = mset (ys @ [v])"
proof -
  have "mset (take i ys) + mset (drop i ys) = mset ys"
    by (simp add: union_code)
  then show ?thesis by simp
qed

lemma distinct_np_delete_notin:
  assumes "distinct xs" "i < length xs"
  shows "xs ! i \<notin> set (np_delete xs i)"
proof -
  have "distinct (take i xs @ xs ! i # drop (Suc i) xs)"
    using id_take_nth_drop [OF assms(2)] assms(1) by simp
  then show ?thesis by (auto simp: np_delete_def)
qed

lemma distinct_list_update_np_delete:
  assumes "distinct xs" "i < length xs" "v \<notin> set (np_delete xs i)"
  shows "distinct (xs[i := v])"
proof -
  have "distinct (take i xs @ xs ! i # drop (Suc i) xs)"
    using id_take_nth_drop [OF assms(2)] assms(1) by simp
  then have "distinct (take i xs @ v # drop (Suc i) xs)"
    using assms(3) by (auto simp: np_delete_def)
  then show ?thesis using assms(2) by (simp add: upd_conv_take_nth_drop)
qed

section \<open>The scan of Phase 2\<close>

lemma scan2_result:
  assumes "scan2 f js (m0, d0) = Inr (m, d)"
  shows "(\<forall>j \<in> set js. \<exists>s dj. f j = Inr (s, dj) \<and> d \<le> dj) \<and> d \<le> d0
         \<and> ((m, d) = (m0, d0) \<or> (\<exists>j \<in> set js. \<exists>s. m = Some j \<and> f j = Inr (s, d) \<and> d < d0))"
  using assms
proof (induction js arbitrary: m0 d0)
  case Nil
  then show ?case by simp
next
  case (Cons j js)
  from Cons.prems obtain sd where fj': "f j = Inr sd"
    and rest': "scan2 f js (if snd sd < d0 then (Some j, snd sd) else (m0, d0)) = Inr (m, d)"
    by (auto simp: bindE_eq_Inr)
  obtain s dj where sd: "sd = (s, dj)" by (cases sd)
  have fj: "f j = Inr (s, dj)" using fj' sd by simp
  have rest: "scan2 f js (if dj < d0 then (Some j, dj) else (m0, d0)) = Inr (m, d)"
    using rest' unfolding sd by (simp cong: if_cong)
  show ?case
  proof (cases "dj < d0")
    case True
    with rest have r: "scan2 f js (Some j, dj) = Inr (m, d)" by simp
    from Cons.IH [OF r] fj True show ?thesis by auto
  next
    case False
    with rest have r: "scan2 f js (m0, d0) = Inr (m, d)" by simp
    from Cons.IH [OF r] fj False show ?thesis by auto
  qed
qed


section \<open>A slot of Phase 2\<close>

lemma cand2_Inr:
  assumes "cand2 self a ind1 rest ids i j = Inr (s, d)"
  shows "scaleFac2 self a ind1 i j = Inr s \<and> 0 < s
     \<and> d = (if s > maxScale a \<or> int j \<in> set ids
            then devTotal_of self a (rest @ [map (\<lambda>x. x + ln s) (sampleBig a ! j)]) + 1000000
            else devTotal_of self a (rest @ [map (\<lambda>x. x + ln s) (sampleBig a ! j)]))"
  using assms
  by (auto simp: cand2_def bindE_eq_Inr np_log_def Let_def split: if_splits)

lemma phase2_step_Inr:
  assumes "phase2_step self a ind1 st i = Inr st'"
  shows "\<exists>m d s. scan2 (cand2 self a ind1 (np_delete (sampleSmall st) i) (np_delete (recID st) i) i)
             [0..<length (sampleBig a)] (minID st, 100000) = Inr (Some m, d)
         \<and> scaleFac2 self a ind1 i m = Inr s \<and> 0 < s
         \<and> st' = st\<lparr>finalScaleFac := (finalScaleFac st)[i := (if isScaled a = 1 then s else 1)],
                     sampleSmall := take i (np_delete (sampleSmall st) i)
                         @ [map (\<lambda>x. x + ln s) (sampleBig a ! m)]
                         @ drop i (np_delete (sampleSmall st) i),
                     recID := take i (np_delete (recID st) i) @ [int m]
                         @ drop i (np_delete (recID st) i),
                     minID := Some m\<rparr>"
proof -
  from assms obtain md where
    scan: "scan2 (cand2 self a ind1 (np_delete (sampleSmall st) i) (np_delete (recID st) i) i)
             [0..<length (sampleBig a)] (minID st, 100000) = Inr md"
    and rest: "(case fst md of None \<Rightarrow> Inl UnboundLocalError
           | Some m \<Rightarrow>
               bindE (scaleFac2 self a ind1 i m) (\<lambda>s.
                 bindE (np_log s) (\<lambda>ls.
                   Inr (st\<lparr>finalScaleFac :=
                              (finalScaleFac st)[i := (if isScaled a = 1 then s else 1)],
                           sampleSmall :=
                              take i (np_delete (sampleSmall st) i)
                               @ [map (\<lambda>x. x + ls) (sampleBig a ! m)]
                               @ drop i (np_delete (sampleSmall st) i),
                           recID := take i (np_delete (recID st) i) @ [int m]
                               @ drop i (np_delete (recID st) i),
                           minID := Some m\<rparr>)))) = Inr st'"
    unfolding phase2_step_def Let_def bindE_eq_Inr by blast
  obtain mo d where md: "md = (mo, d)" by (cases md)
  from rest md obtain m where mo: "mo = Some m" by (cases mo) auto
  from rest md mo obtain s ls where s: "scaleFac2 self a ind1 i m = Inr s"
    and ls: "np_log s = Inr ls"
    and st': "st' = st\<lparr>finalScaleFac := (finalScaleFac st)[i := (if isScaled a = 1 then s else 1)],
                     sampleSmall := take i (np_delete (sampleSmall st) i)
                         @ [map (\<lambda>x. x + ls) (sampleBig a ! m)]
                         @ drop i (np_delete (sampleSmall st) i),
                     recID := take i (np_delete (recID st) i) @ [int m]
                         @ drop i (np_delete (recID st) i),
                     minID := Some m\<rparr>"
    by (auto simp: bindE_eq_Inr)
  from ls have "0 < s" "ls = ln s" by (auto simp: np_log_def split: if_splits)
  with scan md mo s st' show ?thesis by blast
qed

lemma scaleFac2_unscaled: "isScaled a \<noteq> 1 \<Longrightarrow> scaleFac2 self a ind1 i j = Inr 1"
  by (simp add: scaleFac2_def)

lemma phase2_step_good:
  assumes G: "good_selection self a ind1 st"
    and S: "settled self a st"
    and W: "0 \<le> weights a ! 0" "0 \<le> weights a ! 1"
    and i: "i < nGM a"
    and step: "phase2_step self a ind1 st i = Inr st'"
  shows "good_selection self a ind1 st'
     \<and> devTotal_of self a (sampleSmall st') < 100000
     \<and> minID st' \<noteq> None
     \<and> devTotal_of self a (sampleSmall st') \<le> devTotal_of self a (sampleSmall st)"
proof -
  define rest where "rest = np_delete (sampleSmall st) i"
  define ids where "ids = np_delete (recID st) i"
  define f where "f = cand2 self a ind1 rest ids i"
  define nBig where "nBig = length (sampleBig a)"
  have len: "length (recID st) = nGM a" "length (finalScaleFac st) = nGM a"
    "length (sampleSmall st) = nGM a" and dist: "distinct (recID st)"
    and rows: "\<And>k. k < nGM a \<Longrightarrow> row_ok self a ind1 st k"
    using G unfolding good_selection_def by auto
  from phase2_step_Inr [OF step] obtain m d s where
    scan: "scan2 f [0..<nBig] (minID st, 100000) = Inr (Some m, d)"
    and sm: "scaleFac2 self a ind1 i m = Inr s" and spos: "0 < s"
    and st': "st' = st\<lparr>finalScaleFac := (finalScaleFac st)[i := (if isScaled a = 1 then s else 1)],
                     sampleSmall := take i rest @ [map (\<lambda>x. x + ln s) (sampleBig a ! m)] @ drop i rest,
                     recID := take i ids @ [int m] @ drop i ids,
                     minID := Some m\<rparr>"
    unfolding f_def rest_def ids_def nBig_def by blast
  note sr = scan2_result [OF scan]
  \<comment> \<open>the record removed from slot \<open>i\<close> is itself a candidate\<close>
  from rows [OF i] obtain r sr0 where r: "recID st ! i = int r" "r < nBig"
    "scaleFac2 self a ind1 i r = Inr sr0" "sr0 \<le> maxScale a"
    "0 < sr0 \<longrightarrow> sampleSmall st ! i = map (\<lambda>x. x + ln sr0) (sampleBig a ! r)"
    unfolding row_ok_def nBig_def by blast
  from sr r(2) obtain s1 dr where fr: "f r = Inr (s1, dr)" and ddr: "d \<le> dr" by fastforce
  note cr = cand2_Inr [OF fr [unfolded f_def]]
  have s1: "s1 = sr0" using cr r(3) by simp
  have pos: "0 < sr0" using cr s1 by simp
  have rowi: "sampleSmall st ! i = map (\<lambda>x. x + ln sr0) (sampleBig a ! r)" using r(5) pos by simp
  have notin: "int r \<notin> set ids"
    using distinct_np_delete_notin [OF dist, of i] i len r(1) unfolding ids_def by simp
  have "dr = devTotal_of self a (rest @ [sampleSmall st ! i])"
    using cr s1 r(4) notin rowi by simp
  also have "\<dots> = devTotal_of self a (sampleSmall st)"
    unfolding rest_def using i len by (intro devTotal_of_mset mset_np_delete) simp
  finally have dr: "dr = devTotal_of self a (sampleSmall st)" .
  \<comment> \<open>so some candidate was accepted in this slot\<close>
  have "(Some m, d) \<noteq> (minID st, 100000)"
  proof
    assume e: "(Some m, d) = (minID st, 100000)"
    then have "minID st = Some m" "d = 100000" by simp_all
    then have "minID st \<noteq> None" "d = 100000" by simp_all
    with S have "devTotal_of self a (sampleSmall st) < 100000" unfolding settled_def by simp
    with ddr dr \<open>d = 100000\<close> show False by simp
  qed
  with sr obtain j s2 where j: "j < nBig" "Some m = Some j" "f j = Inr (s2, d)" "d < 100000"
    by auto
  have mj: "j = m" using j(2) by simp
  note cm = cand2_Inr [OF j(3) [unfolded f_def mj]]
  have s2: "s2 = s" using cm sm by simp
  let ?new = "map (\<lambda>x. x + ln s) (sampleBig a ! m)"
  have nn: "0 \<le> devTotal_of self a (rest @ [?new])" using W by (rule devTotal_of_nonneg)
  have adm: "s \<le> maxScale a \<and> int m \<notin> set ids"
  proof (rule ccontr)
    assume "\<not> (s \<le> maxScale a \<and> int m \<notin> set ids)"
    then have "d = devTotal_of self a (rest @ [?new]) + 1000000" using cm s2 by auto
    with nn j(4) show False by simp
  qed
  have d: "d = devTotal_of self a (rest @ [?new])" using cm s2 adm by auto
  have fs: "(if isScaled a = 1 then s else 1) = s"
    using sm scaleFac2_unscaled [of a self ind1 i m] by auto
  have ss': "sampleSmall st' = (sampleSmall st)[i := ?new]"
    unfolding st' rest_def using np_delete_insert [of i "sampleSmall st"] i len by simp
  have id': "recID st' = (recID st)[i := int m]"
    unfolding st' ids_def using np_delete_insert [of i "recID st"] i len by simp
  have fs': "finalScaleFac st' = (finalScaleFac st)[i := s]"
    unfolding st' using fs by simp
  have dev': "devTotal_of self a (sampleSmall st') = d"
  proof -
    have "sampleSmall st' = take i rest @ [?new] @ drop i rest" unfolding st' by simp
    then have "devTotal_of self a (sampleSmall st') = devTotal_of self a (rest @ [?new])"
      by (simp only: devTotal_of_mset [OF mset_insert_at])
    then show ?thesis using d by simp
  qed
  have dist': "distinct (recID st')"
    unfolding id' using dist i len adm
    by (intro distinct_list_update_np_delete) (simp_all add: ids_def)
  have rows': "row_ok self a ind1 st' k" if k: "k < nGM a" for k
  proof (cases "k = i")
    case True
    show ?thesis unfolding row_ok_def ss' id' fs' True
      using i len mj j(1) sm adm by (auto simp: nBig_def)
  next
    case False
    then show ?thesis using rows [OF k] unfolding row_ok_def ss' id' fs' by simp
  qed
  have "good_selection self a ind1 st'"
    unfolding good_selection_def using dist' rows' len by (simp add: ss' id' fs')
  moreover have "minID st' \<noteq> None" unfolding st' by simp
  ultimately show ?thesis using dev' j(4) ddr dr by simp
qed

section \<open>Phase 1\<close>

lemma first_index_Some:
  "first_index p xs = Some i \<Longrightarrow> i < length xs \<and> p (xs ! i)"
proof (induction xs arbitrary: i)
  case Nil
  then show ?case by simp
next
  case (Cons x xs)
  then show ?case by (cases "p x") auto
qed

lemma first_index_None: "first_index p xs = None \<Longrightarrow> x \<in> set xs \<Longrightarrow> \<not> p x"
  by (induction xs) (auto split: if_splits)

lemma argsort0_least:
  assumes "xs \<noteq> []"
  shows "argsort0 xs < length xs \<and> xs ! argsort0 xs = Min (set xs)"
proof (cases "first_index (\<lambda>x. x = Min (set xs)) xs")
  case None
  have "Min (set xs) \<in> set xs" using assms by (intro Min_in) simp_all
  with first_index_None [OF None] show ?thesis by blast
next
  case (Some i)
  with first_index_Some [OF Some] show ?thesis by (simp add: argsort0_def)
qed

lemma mapE_np_log_scaled:
  assumes "mapE np_log (map (\<lambda>x. exp x * s) xs) = Inr l"
  shows "l = map (\<lambda>x. ln (exp x * s)) xs \<and> (xs = [] \<or> 0 < s)"
  using assms
proof (induction xs arbitrary: l)
  case Nil
  then show ?case by simp
next
  case (Cons x xs)
  from Cons.prems obtain y ys where y: "np_log (exp x * s) = Inr y"
    and ys: "mapE np_log (map (\<lambda>x. exp x * s) xs) = Inr ys" and l: "l = y # ys"
    by (auto simp: bindE_eq_Inr)
  from y have "0 < exp x * s" "y = ln (exp x * s)" by (auto simp: np_log_def split: if_splits)
  then have "0 < s" "y = ln (exp x * s)" by (simp_all add: zero_less_mult_iff)
  with Cons.IH [OF ys] l show ?case by simp
qed

lemma ln_exp_times: "0 < s \<Longrightarrow> ln (exp x * s) = x + ln (s::real)"
  by (simp add: ln_mult)

lemma err1_Inr:
  assumes "err1 self a ind1 ids i j = Inr (s, e)"
  shows "scaleFac1 self a ind1 i j = Inr s
     \<and> (int j \<in> set ids \<or> s > maxScale a \<longrightarrow> e = 1000000)
     \<and> (\<not> (int j \<in> set ids \<or> s > maxScale a) \<longrightarrow>
          (\<exists>l. mapE np_log (map (\<lambda>x. exp x * s) (sampleBig a ! j)) = Inr l
             \<and> e = sum_list (map2 (\<lambda>x y. (x - y)\<^sup>2) l (sim_spec a ! i))))"
  using assms
  by (auto simp: err1_def bindE_eq_Inr split: if_splits)

lemma phase1_step_Inr:
  assumes "phase1_step self a ind1 st i = Inr st'"
  shows "\<exists>se row. mapE (err1 self a ind1 (recID st) i) [0..<length (sampleBig a)] = Inr se
      \<and> se \<noteq> [] \<and> Min (set (map snd se)) < 1000000
      \<and> mapE np_log (map (\<lambda>x. exp x * (if isScaled a = 1 then map fst se ! argsort0 (map snd se)
                                             else finalScaleFac st ! i))
                       (sampleBig a ! argsort0 (map snd se))) = Inr row
      \<and> st' = st\<lparr>recID := (recID st)[i := int (argsort0 (map snd se))],
                  finalScaleFac := (finalScaleFac st)[i := (if isScaled a = 1
                       then map fst se ! argsort0 (map snd se) else finalScaleFac st ! i)],
                  sampleSmall := (sampleSmall st)[i := row]\<rparr>"
  using assms unfolding phase1_step_def Let_def
  by (auto simp: bindE_eq_Inr not_le simp del: Min_ge_iff Min_less_iff Min_le_iff Min_gr_iff
      split: if_splits)

lemma phase1_inv_init: "phase1_inv self a ind1 0 (init_selection self a)"
  by (simp add: phase1_inv_def init_selection_def)

lemma row_ok_cong:
  assumes "recID st' ! k = recID st ! k" "finalScaleFac st' ! k = finalScaleFac st ! k"
    "sampleSmall st' ! k = sampleSmall st ! k"
  shows "row_ok self a ind1 st' k = row_ok self a ind1 st k"
  unfolding row_ok_def assms ..

lemma phase1_step_inv:
  assumes inv: "phase1_inv self a ind1 i st" and i: "i < nGM a"
    and step: "phase1_step self a ind1 st i = Inr st'"
  shows "phase1_inv self a ind1 (Suc i) st'"
proof -
  define nBig where "nBig = length (sampleBig a)"
  have len: "length (recID st) = nGM a" "length (finalScaleFac st) = nGM a"
    "length (sampleSmall st) = nGM a" and mn: "minID st = None"
    and dist: "distinct (take i (recID st))"
    and rows: "\<And>k. k < i \<Longrightarrow> row_ok self a ind1 st k"
    and todo: "\<And>k. i \<le> k \<Longrightarrow> k < nGM a \<Longrightarrow> recID st ! k = - 1 \<and> finalScaleFac st ! k = 1"
    using inv unfolding phase1_inv_def by auto
  from phase1_step_Inr [OF step] obtain se row where
    se: "mapE (err1 self a ind1 (recID st) i) [0..<nBig] = Inr se"
    and ne: "se \<noteq> []" and mn1: "Min (set (map snd se)) < 1000000"
    and row: "mapE np_log (map (\<lambda>x. exp x * (if isScaled a = 1 then map fst se ! argsort0 (map snd se)
                                             else finalScaleFac st ! i))
                       (sampleBig a ! argsort0 (map snd se))) = Inr row"
    and st': "st' = st\<lparr>recID := (recID st)[i := int (argsort0 (map snd se))],
                  finalScaleFac := (finalScaleFac st)[i := (if isScaled a = 1
                       then map fst se ! argsort0 (map snd se) else finalScaleFac st ! i)],
                  sampleSmall := (sampleSmall st)[i := row]\<rparr>"
    unfolding nBig_def by blast
  define r where "r = argsort0 (map snd se)"
  have lse: "length se = nBig" using mapE_length [OF se] by simp
  have r: "r < nBig" "snd (se ! r) = Min (set (map snd se))"
    using argsort0_least [of "map snd se"] ne lse unfolding r_def by auto
  obtain s e where ser: "se ! r = (s, e)" by (cases "se ! r")
  have "err1 self a ind1 (recID st) i ([0..<nBig] ! r) = Inr (se ! r)"
    using mapE_nth [OF se] r(1) by simp
  then have er: "err1 self a ind1 (recID st) i r = Inr (s, e)" using r(1) ser by simp
  have e: "e < 1000000" using r(2) ser mn1 by simp
  note E = err1_Inr [OF er]
  have adm: "int r \<notin> set (recID st)" "s \<le> maxScale a" using E e by auto
  have sf: "scaleFac1 self a ind1 i r = Inr s" using E by simp
  have f: "(if isScaled a = 1 then map fst se ! r else finalScaleFac st ! i) = s"
  proof (cases "isScaled a = 1")
    case True
    then show ?thesis using ser r(1) lse by simp
  next
    case False
    then have "s = 1" using sf by (simp add: scaleFac1_def)
    moreover have "finalScaleFac st ! i = 1" using todo [of i] i by simp
    ultimately show ?thesis using False by simp
  qed
  have rowv: "row = map (\<lambda>x. ln (exp x * s)) (sampleBig a ! r)"
    using mapE_np_log_scaled [of s "sampleBig a ! r" row] row unfolding r_def [symmetric] f by simp
  have id': "recID st' = (recID st)[i := int r]"
    and fs': "finalScaleFac st' = (finalScaleFac st)[i := s]"
    and ss': "sampleSmall st' = (sampleSmall st)[i := row]"
    and mn': "minID st' = None"
    unfolding st' r_def [symmetric] f using mn by simp_all
  have rowi: "row_ok self a ind1 st' i"
    unfolding row_ok_def id' fs' ss' rowv
    using i len r(1) sf adm(2) by (auto simp: nBig_def scaleFac2_eq_scaleFac1 ln_exp_times)
  have rows': "row_ok self a ind1 st' k" if "k < Suc i" for k
  proof (cases "k = i")
    case True
    then show ?thesis using rowi by simp
  next
    case False
    then have "k < i" using that by simp
    then show ?thesis using rows [of k] False
      by (simp add: row_ok_cong [of st' k st] id' fs' ss')
  qed
  have dist': "distinct (take (Suc i) (recID st'))"
  proof -
    have "take (Suc i) ((recID st)[i := int r]) = take i (recID st) @ [int r]"
      using i len by (simp add: take_Suc_conv_app_nth)
    moreover have "int r \<notin> set (take i (recID st))" using adm(1) by (meson in_set_takeD)
    ultimately show ?thesis using dist unfolding id' by simp
  qed
  have todo': "recID st' ! k = - 1 \<and> finalScaleFac st' ! k = 1" if "Suc i \<le> k" "k < nGM a" for k
    using that todo [of k] unfolding id' fs' by simp
  show ?thesis unfolding phase1_inv_def
    using len mn' dist' rows' todo' by (simp add: id' fs' ss')
qed

lemma phase1_good:
  assumes "phase1 self a ind1 = Inr st"
  shows "good_selection self a ind1 st \<and> minID st = None"
proof -
  have "phase1_inv self a ind1 (nGM a) st"
    using assms unfolding phase1_def
    by (rule foldE_upt_invariant [where P = "phase1_inv self a ind1"])
       (auto intro: phase1_inv_init phase1_step_inv)
  then have inv: "length (recID st) = nGM a" "length (finalScaleFac st) = nGM a"
     "length (sampleSmall st) = nGM a" "minID st = None"
     "distinct (take (nGM a) (recID st))" "\<forall>k < nGM a. row_ok self a ind1 st k"
    unfolding phase1_inv_def by blast+
  from inv(1,5) have "distinct (recID st)" by simp
  with inv show ?thesis unfolding good_selection_def by simp
qed

section \<open>Passes of Phase 2\<close>

lemma phase2_pass_good:
  assumes G: "good_selection self a ind1 st" and S: "settled self a st"
    and W: "0 \<le> weights a ! 0" "0 \<le> weights a ! 1"
    and pass: "phase2_pass self a ind1 st = Inr st'"
  shows "good_selection self a ind1 st' \<and> settled self a st'
     \<and> devTotal_of self a (sampleSmall st') \<le> devTotal_of self a (sampleSmall st)"
proof -
  let ?P = "\<lambda>(i::nat) t. good_selection self a ind1 t \<and> settled self a t
     \<and> devTotal_of self a (sampleSmall t) \<le> devTotal_of self a (sampleSmall st)"
  have "?P (nGM a) st'"
    using pass unfolding phase2_pass_def
  proof (rule foldE_upt_invariant [where P = ?P])
    show "?P 0 st" using G S by simp
  next
    fix i t t'
    assume i: "i < nGM a" and P: "?P i t" and step: "phase2_step self a ind1 t i = Inr t'"
    from P have g: "good_selection self a ind1 t" and s: "settled self a t" by simp_all
    from phase2_step_good [OF g s W i step] P
    show "?P (Suc i) t'" by (simp add: settled_def)
  qed
  then show ?thesis by simp
qed

lemma passes_good:
  assumes "good_selection self a ind1 st" "settled self a st"
    and "0 \<le> weights a ! 0" "0 \<le> weights a ! 1"
    and "passes self a ind1 n st = Inr st'"
  shows "good_selection self a ind1 st' \<and> settled self a st'"
  using assms
proof (induction n arbitrary: st)
  case 0
  then show ?case by simp
next
  case (Suc n)
  from Suc.prems(5) obtain t where t: "phase2_pass self a ind1 st = Inr t"
    and r: "passes self a ind1 n t = Inr st'"
    by (auto simp: bindE_eq_Inr)
  from phase2_pass_good [OF Suc.prems(1-4) t] have "good_selection self a ind1 t" "settled self a t"
    by simp_all
  from Suc.IH [OF this Suc.prems(3,4) r] show ?case .
qed

lemma good_selection_scale:
  assumes "good_selection self a ind1 st" "s \<in> set (finalScaleFac st)"
  shows "s \<le> maxScale a"
proof -
  from assms(2) obtain k where k: "k < length (finalScaleFac st)" "finalScaleFac st ! k = s"
    by (auto simp: in_set_conv_nth)
  with assms(1) have "row_ok self a ind1 st k" unfolding good_selection_def by simp
  with k show ?thesis unfolding row_ok_def by auto
qed

section \<open>The optimisation loop\<close>

lemma opt_loop_passes:
  assumes "opt_loop self a ind1 ind2 n st prev = Inr (st', e)"
  shows "\<exists>k \<le> n. passes self a ind1 k st = Inr st'"
  using assms
proof (induction n arbitrary: st prev)
  case 0
  then have "st' = st" by (auto split: option.splits)
  then show ?case by simp
next
  case (Suc n)
  from Suc.prems obtain t e' where t: "phase2_pass self a ind1 st = Inr t"
    and r: "(if fst e' < tol a \<and> snd e' < tol a then Inr (t, e')
             else opt_loop self a ind1 ind2 n t (Some e')) = Inr (st', e)"
    by (auto simp: bindE_eq_Inr)
  show ?case
  proof (cases "fst e' < tol a \<and> snd e' < tol a")
    case True
    with r have "st' = t" by simp
    with t have "passes self a ind1 (Suc 0) st = Inr st'" by simp
    then show ?thesis by (intro exI [of _ "Suc 0"]) simp
  next
    case False
    with r have "opt_loop self a ind1 ind2 n t (Some e') = Inr (st', e)" by simp
    from Suc.IH [OF this] obtain k where k: "k \<le> n" "passes self a ind1 k t = Inr st'" by blast
    with t have "passes self a ind1 (Suc k) st = Inr st'" by simp
    with k(1) show ?thesis by (intro exI [of _ "Suc k"]) simp
  qed
qed

lemma select_Inr:
  assumes "select self a = Inr (st, e)"
  shows "\<exists>ind1 st0 k. phase1 self a ind1 = Inr st0 \<and> k \<le> nLoop a
           \<and> passes self a ind1 k st0 = Inr st"
proof -
  from assms obtain ind st0 where p1: "phase1 self a (fst ind) = Inr st0"
    and lp: "opt_loop self a (fst ind) (snd ind) (nLoop a) st0 None = Inr (st, e)"
    unfolding select_def bindE_eq_Inr by blast
  from opt_loop_passes [OF lp] p1 show ?thesis by blast
qed

lemma selection_ok:
  assumes W: "0 \<le> weights a ! 0" "0 \<le> weights a ! 1"
    and p1: "phase1 self a ind1 = Inr st0"
    and ps: "passes self a ind1 n st0 = Inr st"
  shows "good_selection self a ind1 st \<and> settled self a st"
proof -
  from phase1_good [OF p1] have g: "good_selection self a ind1 st0" and "minID st0 = None"
    by simp_all
  then have s: "settled self a st0" by (simp add: settled_def)
  from passes_good [OF g s W ps] show ?thesis .
qed

section \<open>Runs on the small inputs\<close>

lemmas run_defs = phase1_def init_selection_def phase1_step_def err1_def scaleFac1_def
  scaleFac2_def np_log_def argsort0_def phase2_pass_def phase2_step_def cand2_def
  devTotal_of_def np_delete_def np_mean_def np_std_def col_def Let_def

lemma phase1_one_record:
  "phase1 uncond_target (one_record_args 0) [] =
     Inr \<lparr>recID = [0], finalScaleFac = [1], sampleSmall = [[0]], minID = None\<rparr>"
  by (simp add: run_defs uncond_target_def one_record_args_def)

section \<open>Phase 1: exclusion, least error, failure\<close>

lemma mapE_Inl: "mapE f xs = Inl e \<Longrightarrow> \<exists>x \<in> set xs. f x = Inl e"
proof (induction xs)
  case Nil
  then show ?case by simp
next
  case (Cons x xs)
  show ?case
  proof (cases "f x")
    case (Inl e')
    with Cons.prems show ?thesis by simp
  next
    case (Inr y)
    with Cons.prems have "mapE f xs = Inl e" by (cases "mapE f xs") simp_all
    with Cons.IH show ?thesis by auto
  qed
qed

lemma mapE_np_log_not_exit: "mapE np_log xs \<noteq> Inl SystemExit"
proof
  assume "mapE np_log xs = Inl SystemExit"
  from mapE_Inl [OF this] show False by (auto simp: np_log_def split: if_splits)
qed

lemma phase1_step_exit_iff:
  assumes se: "mapE (err1 self a ind1 (recID st) i) [0..<length (sampleBig a)] = Inr se"
    and ne: "se \<noteq> []"
  shows "phase1_step self a ind1 st i = Inl SystemExit \<longleftrightarrow> 1000000 \<le> Min (set (map snd se))"
proof (cases "1000000 \<le> Min (set (map snd se))")
  case True
  then show ?thesis using se ne by (simp add: phase1_step_def Let_def del: Min_ge_iff)
next
  case False
  define f where "f = (if isScaled a = 1 then map fst se ! argsort0 (map snd se)
                       else finalScaleFac st ! i)"
  define rowE where "rowE = mapE np_log (map (\<lambda>x. exp x * f) (sampleBig a ! argsort0 (map snd se)))"
  have "phase1_step self a ind1 st i = bindE rowE (\<lambda>row.
       Inr (st\<lparr>recID := (recID st)[i := int (argsort0 (map snd se))],
               finalScaleFac := (finalScaleFac st)[i := f],
               sampleSmall := (sampleSmall st)[i := row]\<rparr>))"
    using se ne False unfolding rowE_def f_def
    by (simp add: phase1_step_def Let_def del: Min_ge_iff)
  moreover have "rowE \<noteq> Inl SystemExit" unfolding rowE_def by (rule mapE_np_log_not_exit)
  ultimately have "phase1_step self a ind1 st i \<noteq> Inl SystemExit"
    by (cases rowE) auto
  with False show ?thesis by simp
qed

lemma phase1_step_picks_least:
  assumes se: "mapE (err1 self a ind1 (recID st) i) [0..<length (sampleBig a)] = Inr se"
    and ne: "se \<noteq> []"
    and step: "phase1_step self a ind1 st i = Inr st'"
  shows "recID st' = (recID st)[i := int (argsort0 (map snd se))]
     \<and> snd (se ! argsort0 (map snd se)) = Min (set (map snd se))"
proof -
  from phase1_step_Inr [OF step] se
  have "recID st' = (recID st)[i := int (argsort0 (map snd se))]" by auto
  moreover have "snd (se ! argsort0 (map snd se)) = Min (set (map snd se))"
    using argsort0_least [of "map snd se"] ne by auto
  ultimately show ?thesis by simp
qed

lemma phase1_needs_enough_records:
  assumes "phase1 self a ind1 = Inr st"
  shows "nGM a \<le> card {j. j < length (sampleBig a)
            \<and> (\<exists>i < nGM a. \<exists>s. scaleFac1 self a ind1 i j = Inr s \<and> s \<le> maxScale a)}"
proof -
  let ?U = "{j. j < length (sampleBig a)
            \<and> (\<exists>i < nGM a. \<exists>s. scaleFac1 self a ind1 i j = Inr s \<and> s \<le> maxScale a)}"
  define g where "g k = nat (recID st ! k)" for k
  from phase1_good [OF assms] have G: "good_selection self a ind1 st" by simp
  then have len: "length (recID st) = nGM a" and dist: "distinct (recID st)"
    and rows: "\<And>k. k < nGM a \<Longrightarrow> row_ok self a ind1 st k"
    unfolding good_selection_def by auto
  have gk: "recID st ! k = int (g k) \<and> g k \<in> ?U" if "k < nGM a" for k
    using rows [OF that] that unfolding row_ok_def g_def
    by (auto simp: scaleFac2_eq_scaleFac1)
  have inj: "inj_on g {..<nGM a}"
  proof (rule inj_onI)
    fix x y assume xy: "x \<in> {..<nGM a}" "y \<in> {..<nGM a}" "g x = g y"
    then have "recID st ! x = recID st ! y" using gk [of x] gk [of y] by simp
    with dist len xy show "x = y" by (simp add: nth_eq_iff_index_eq)
  qed
  have sub: "g ` {..<nGM a} \<subseteq> ?U" using gk by auto
  have fin: "finite ?U" by simp
  have "card (g ` {..<nGM a}) = nGM a" using inj by (simp add: card_image)
  then show ?thesis using card_mono [OF fin sub] by simp
qed

lemma foldE_upt_failure_upto:
  assumes init: "P 0 s"
    and step: "\<And>i t t'. i < n \<Longrightarrow> P i t \<Longrightarrow> f t i = Inr t' \<Longrightarrow> P (Suc i) t'"
  shows "m \<le> n \<Longrightarrow> foldE f [0..<m] s = Inl e \<Longrightarrow> \<exists>i t. i < m \<and> P i t \<and> f t i = Inl e"
proof (induction m)
  case 0
  then show ?case by simp
next
  case (Suc m)
  have st: "\<And>i t t'. i < m \<Longrightarrow> P i t \<Longrightarrow> f t i = Inr t' \<Longrightarrow> P (Suc i) t'"
    using step Suc.prems(1) by simp
  show ?case
  proof (cases "foldE f [0..<m] s")
    case (Inl e')
    with Suc.prems(2) have "foldE f [0..<m] s = Inl e" by (simp add: foldE_append)
    with Suc.IH Suc.prems(1) obtain i t where "i < m" "P i t" "f t i = Inl e"
      by auto
    then show ?thesis using less_Suc_eq by blast
  next
    case (Inr t)
    have "P m t"
      by (rule foldE_upt_invariant [where P = P and f = f, OF Inr init]) (rule st)
    moreover have "f t m = Inl e" using Suc.prems(2) Inr
      by (cases "f t m") (simp_all add: foldE_append)
    ultimately show ?thesis by blast
  qed
qed

lemma foldE_upt_failure:
  assumes "foldE f [0..<n] s = Inl e"
    and "P 0 s"
    and "\<And>i t t'. i < n \<Longrightarrow> P i t \<Longrightarrow> f t i = Inr t' \<Longrightarrow> P (Suc i) t'"
  shows "\<exists>i t. i < n \<and> P i t \<and> f t i = Inl e"
  using foldE_upt_failure_upto [of P s n f n e, OF assms(2,3) _ assms(1)] by simp

lemma mapE_np_log_pos:
  "0 < s \<Longrightarrow> \<exists>l. mapE np_log (map (\<lambda>x. exp x * s) xs) = Inr l"
  by (rule mapE_all_Inr) (auto simp: np_log_def)

lemma err1_total:
  assumes "scaleFac1 self a ind1 i j = Inr s" "0 < s"
  shows "\<exists>e. err1 self a ind1 ids i j = Inr (s, e)"
proof -
  from mapE_np_log_pos [OF assms(2), of "sampleBig a ! j"] obtain l
    where "mapE np_log (map (\<lambda>x. exp x * s) (sampleBig a ! j)) = Inr l" by blast
  then show ?thesis using assms(1) by (simp add: err1_def)
qed

lemma phase1_step_Inr_or_exit:
  assumes inv: "phase1_inv self a ind1 i st" and i: "i < nGM a"
    and ne: "sampleBig a \<noteq> []"
    and pos: "\<forall>j < length (sampleBig a). \<exists>s. scaleFac1 self a ind1 i j = Inr s \<and> 0 < s"
  shows "(\<exists>st'. phase1_step self a ind1 st i = Inr st')
       \<or> phase1_step self a ind1 st i = Inl SystemExit"
proof -
  have "\<exists>se. mapE (err1 self a ind1 (recID st) i) [0..<length (sampleBig a)] = Inr se"
  proof (rule mapE_all_Inr)
    fix j assume "j \<in> set [0..<length (sampleBig a)]"
    then have "j < length (sampleBig a)" by simp
    with pos obtain s where "scaleFac1 self a ind1 i j = Inr s" "0 < s" by blast
    from err1_total [OF this] show "\<exists>y. err1 self a ind1 (recID st) i j = Inr y" by blast
  qed
  then obtain se where se: "mapE (err1 self a ind1 (recID st) i) [0..<length (sampleBig a)] = Inr se"
    by blast
  have lse: "length se = length (sampleBig a)" using mapE_length [OF se] by simp
  then have sne: "se \<noteq> []" using ne by auto
  show ?thesis
  proof (cases "1000000 \<le> Min (set (map snd se))")
    case True
    then show ?thesis using phase1_step_exit_iff [OF se sne] by simp
  next
    case False
    define r where "r = argsort0 (map snd se)"
    define f where "f = (if isScaled a = 1 then map fst se ! r else finalScaleFac st ! i)"
    have r: "r < length (sampleBig a)"
      using argsort0_least [of "map snd se"] sne lse unfolding r_def by simp
    have "err1 self a ind1 (recID st) i r = Inr (se ! r)"
      using mapE_nth [OF se, of r] r by simp
    then have "scaleFac1 self a ind1 i r = Inr (fst (se ! r))"
      using err1_Inr [of self a ind1 "recID st" i r "fst (se ! r)" "snd (se ! r)"] by simp
    with pos r have p1: "0 < fst (se ! r)" by auto
    have "finalScaleFac st ! i = 1" using inv i unfolding phase1_inv_def by simp
    with p1 r lse have "0 < f" unfolding f_def by simp
    from mapE_np_log_pos [OF this, of "sampleBig a ! r"] obtain row
      where row: "mapE np_log (map (\<lambda>x. exp x * f) (sampleBig a ! r)) = Inr row" by blast
    have "\<exists>st'. phase1_step self a ind1 st i = Inr st'"
    proof (cases "isScaled a = 1")
      case True
      then show ?thesis using se sne False row unfolding f_def r_def
        by (simp add: phase1_step_def Let_def del: Min_ge_iff Min_less_iff Min_le_iff Min_gr_iff)
    next
      case F: False
      then show ?thesis using se sne False row unfolding f_def r_def
        by (simp add: phase1_step_def Let_def del: Min_ge_iff Min_less_iff Min_le_iff Min_gr_iff)
    qed
    then show ?thesis by blast
  qed
qed

lemma phase1_Inr_or_exit:
  assumes ne: "sampleBig a \<noteq> []"
    and pos: "\<forall>i < nGM a. \<forall>j < length (sampleBig a).
                \<exists>s. scaleFac1 self a ind1 i j = Inr s \<and> 0 < s"
  shows "(\<exists>st. phase1 self a ind1 = Inr st) \<or> phase1 self a ind1 = Inl SystemExit"
proof (cases "phase1 self a ind1")
  case (Inr st)
  then show ?thesis by blast
next
  case (Inl e)
  then have "foldE (phase1_step self a ind1) [0..<nGM a] (init_selection self a) = Inl e"
    by (simp add: phase1_def)
  from foldE_upt_failure [where P = "phase1_inv self a ind1", OF this phase1_inv_init]
  obtain i t where it: "i < nGM a" "phase1_inv self a ind1 i t" "phase1_step self a ind1 t i = Inl e"
    using phase1_step_inv by blast
  from phase1_step_Inr_or_exit [OF it(2) it(1) ne] pos it(1,3) have "e = SystemExit" by auto
  with Inl show ?thesis by simp
qed

lemma phase1_empty_pool:
  assumes "sampleBig a = []" "0 < nGM a"
  shows "phase1 self a ind1 = Inl IndexError"
proof -
  have u: "[0..<nGM a] = 0 # [1..<nGM a]" using assms(2) by (simp add: upt_conv_Cons)
  have "phase1_step self a ind1 (init_selection self a) 0 = Inl IndexError"
    using assms(1) by (simp add: phase1_step_def)
  then show ?thesis unfolding phase1_def u by simp
qed

lemma phase1_short_pool: "phase1 uncond_target short_pool_args [] = Inl SystemExit"
  by (simp add: run_defs uncond_target_def one_record_args_def short_pool_args_def
      numeral_2_eq_2)

text \<open>
  Claim C5, as stated, fails on an empty pool: no record is usable, fewer than
  \<open>nGM = 1\<close>, but \<open>np.argsort(err)[0]\<close> on the empty error array raises \<open>IndexError\<close>
  before the test \<open>err.min() >= 1000000\<close> is reached, so the failure is not the fatal
  exit of Phase 1.
\<close>

theorem C5_counterexample:
  "sampleBig empty_pool_args = [] \<and> nGM empty_pool_args = 1
   \<and> card {j. j < length (sampleBig empty_pool_args)
            \<and> (\<exists>i < nGM empty_pool_args. \<exists>s. scaleFac1 uncond_target empty_pool_args [] i j = Inr s
                  \<and> s \<le> maxScale empty_pool_args)} < nGM empty_pool_args
   \<and> phase1 uncond_target empty_pool_args [] = Inl IndexError
   \<and> phase1 uncond_target empty_pool_args [] \<noteq> Inl SystemExit
   \<and> select uncond_target empty_pool_args = Inl IndexError"
proof -
  have e: "sampleBig empty_pool_args = []" "nGM empty_pool_args = 1"
    by (simp_all add: empty_pool_args_def one_record_args_def)
  have p: "phase1 uncond_target empty_pool_args [] = Inl IndexError"
    using phase1_empty_pool [of empty_pool_args uncond_target "[]"] e by simp
  have s: "select uncond_target empty_pool_args = Inl IndexError"
    using p by (simp add: select_def uncond_target_def)
  show ?thesis using e p s by simp
qed

text \<open>
  Claim C5, amended: in Phase 1 a candidate that is already selected or whose scale
  factor exceeds \<open>maxScale\<close> gets the error \<open>10^6\<close>; for a row with a non-empty pool the
  candidate of least error is picked and the run stops with the fatal exit exactly when
  that least error is at least \<open>10^6\<close>. When fewer records than \<open>nGM\<close> are usable (in
  the pool, with a scale factor within \<open>maxScale\<close> for some row), Phase 1 does not
  return a short selection: with a non-empty pool whose scale factors are all positive
  numbers it ends in the fatal exit, and with an empty pool it ends in \<open>IndexError\<close>.
  Whenever Phase 1 returns, it returns \<open>nGM\<close> distinct records.
\<close>

theorem C5_phase1_exclusion_and_failure_amended:
  "(err1 self a ind1 ids i j = Inr (s, e) \<and> (int j \<in> set ids \<or> s > maxScale a)
       \<longrightarrow> e = 1000000)
   \<and> (mapE (err1 self a ind1 (recID st) i) [0..<length (sampleBig a)] = Inr se \<and> se \<noteq> []
       \<longrightarrow> (phase1_step self a ind1 st i = Inl SystemExit
              \<longleftrightarrow> 1000000 \<le> Min (set (map snd se)))
           \<and> (\<forall>st'. phase1_step self a ind1 st i = Inr st'
                \<longrightarrow> recID st' = (recID st)[i := int (argsort0 (map snd se))]
                    \<and> snd (se ! argsort0 (map snd se)) = Min (set (map snd se))))
   \<and> (sampleBig a \<noteq> []
        \<and> (\<forall>i < nGM a. \<forall>j < length (sampleBig a).
              \<exists>s. scaleFac1 self a ind1 i j = Inr s \<and> 0 < s)
        \<and> card {j. j < length (sampleBig a)
            \<and> (\<exists>i < nGM a. \<exists>s. scaleFac1 self a ind1 i j = Inr s \<and> s \<le> maxScale a)} < nGM a
       \<longrightarrow> phase1 self a ind1 = Inl SystemExit)
   \<and> (sampleBig a = [] \<and> 0 < nGM a \<longrightarrow> phase1 self a ind1 = Inl IndexError)
   \<and> (phase1 self a ind1 = Inr st1
       \<longrightarrow> length (recID st1) = nGM a \<and> distinct (recID st1))"
proof (intro conjI impI allI)
  assume "err1 self a ind1 ids i j = Inr (s, e) \<and> (int j \<in> set ids \<or> s > maxScale a)"
  then show "e = 1000000" using err1_Inr [of self a ind1 ids i j s e] by blast
next
  assume h: "mapE (err1 self a ind1 (recID st) i) [0..<length (sampleBig a)] = Inr se \<and> se \<noteq> []"
  then show "phase1_step self a ind1 st i = Inl SystemExit
              \<longleftrightarrow> 1000000 \<le> Min (set (map snd se))"
    using phase1_step_exit_iff by blast
  fix st' assume "phase1_step self a ind1 st i = Inr st'"
  with h phase1_step_picks_least [of self a ind1 st i se st']
  show "recID st' = (recID st)[i := int (argsort0 (map snd se))]"
    and "snd (se ! argsort0 (map snd se)) = Min (set (map snd se))" by blast+
next
  assume c: "sampleBig a \<noteq> []
        \<and> (\<forall>i < nGM a. \<forall>j < length (sampleBig a).
              \<exists>s. scaleFac1 self a ind1 i j = Inr s \<and> 0 < s)
        \<and> card {j. j < length (sampleBig a)
            \<and> (\<exists>i < nGM a. \<exists>s. scaleFac1 self a ind1 i j = Inr s \<and> s \<le> maxScale a)} < nGM a"
  then have "(\<exists>st. phase1 self a ind1 = Inr st) \<or> phase1 self a ind1 = Inl SystemExit"
    using phase1_Inr_or_exit [of a self ind1] by blast
  moreover have "phase1 self a ind1 \<noteq> Inr t" for t
    using phase1_needs_enough_records [of self a ind1 t] c by auto
  ultimately show "phase1 self a ind1 = Inl SystemExit" by blast
next
  assume "sampleBig a = [] \<and> 0 < nGM a"
  then show "phase1 self a ind1 = Inl IndexError" using phase1_empty_pool by blast
next
  assume "phase1 self a ind1 = Inr st1"
  from phase1_good [OF this] show "length (recID st1) = nGM a" and "distinct (recID st1)"
    by (simp_all add: good_selection_def)
qed

text \<open>
  The amended statement on the one-record pool: an excluded candidate, a row that is
  filled, the fatal exit when two rows are to be filled from one record, and the
  \<open>IndexError\<close> on the empty pool.
\<close>

theorem C5_phase1_exclusion_and_failure_amended_witness:
  "err1 uncond_target (one_record_args 0) [] [0] 0 0 = Inr (1, 1000000)
   \<and> mapE (err1 uncond_target (one_record_args 0) [] (recID (init_selection uncond_target (one_record_args 0))) 0)
        [0..<length (sampleBig (one_record_args 0))] = Inr [(1, 0)]
   \<and> phase1_step uncond_target (one_record_args 0) [] (init_selection uncond_target (one_record_args 0)) 0
        \<noteq> Inl SystemExit
   \<and> sampleBig short_pool_args \<noteq> []
   \<and> scaleFac1 uncond_target short_pool_args [] 0 0 = Inr 1
   \<and> scaleFac1 uncond_target short_pool_args [] 1 0 = Inr 1
   \<and> card {j. j < length (sampleBig short_pool_args)
            \<and> (\<exists>i < nGM short_pool_args. \<exists>s. scaleFac1 uncond_target short_pool_args [] i j = Inr s
                  \<and> s \<le> maxScale short_pool_args)} < nGM short_pool_args
   \<and> phase1 uncond_target short_pool_args [] = Inl SystemExit
   \<and> (sampleBig empty_pool_args = [] \<and> 0 < nGM empty_pool_args)
   \<and> phase1 uncond_target empty_pool_args [] = Inl IndexError
   \<and> phase1 uncond_target (one_record_args 0) [] = Inr (st_one_record None)
   \<and> length (recID (st_one_record None)) = nGM (one_record_args 0)
   \<and> distinct (recID (st_one_record None))"
proof -
  let ?a = "one_record_args 0"
  let ?st = "init_selection uncond_target ?a"
  let ?U = "{j. j < length (sampleBig short_pool_args)
            \<and> (\<exists>i < nGM short_pool_args. \<exists>s. scaleFac1 uncond_target short_pool_args [] i j = Inr s
                  \<and> s \<le> maxScale short_pool_args)}"
  note t1 = C5_phase1_exclusion_and_failure_amended [of uncond_target ?a "[]" "[0]" 0 0 1 1000000 ?st
      "[(1, 0)]" "st_one_record None"]
  note t2 = C5_phase1_exclusion_and_failure_amended [of uncond_target short_pool_args "[]" "[0]" 0 0 1 1000000
      "init_selection uncond_target short_pool_args" "[]" "st_one_record None"]
  note t3 = C5_phase1_exclusion_and_failure_amended [of uncond_target empty_pool_args "[]" "[0]" 0 0 1 1000000
      "init_selection uncond_target empty_pool_args" "[]" "st_one_record None"]
  have e: "err1 uncond_target ?a [] [0] 0 0 = Inr (1, 1000000)"
    by (simp add: run_defs uncond_target_def one_record_args_def)
  have m: "mapE (err1 uncond_target ?a [] (recID ?st) 0) [0..<length (sampleBig ?a)] = Inr [(1, 0)]"
    by (simp add: run_defs uncond_target_def one_record_args_def)
  have "phase1_step uncond_target ?a [] ?st 0 = Inl SystemExit
      \<longleftrightarrow> 1000000 \<le> Min (set (map snd [(1 :: real, 0 :: real)]))"
    using t1 m by blast
  then have x: "phase1_step uncond_target ?a [] ?st 0 \<noteq> Inl SystemExit" by simp
  have ne: "sampleBig short_pool_args \<noteq> []"
    by (simp add: short_pool_args_def one_record_args_def)
  have sf: "scaleFac1 uncond_target short_pool_args [] 0 0 = Inr 1"
    "scaleFac1 uncond_target short_pool_args [] 1 0 = Inr 1"
    by (simp_all add: scaleFac1_def uncond_target_def short_pool_args_def one_record_args_def)
  have pos: "\<forall>i < nGM short_pool_args. \<forall>j < length (sampleBig short_pool_args).
              \<exists>s. scaleFac1 uncond_target short_pool_args [] i j = Inr s \<and> 0 < s"
    by (auto simp add: scaleFac1_def uncond_target_def short_pool_args_def one_record_args_def
          less_Suc_eq numeral_2_eq_2)
  have "?U \<subseteq> {..<1}" by (auto simp: short_pool_args_def one_record_args_def)
  then have "card ?U \<le> card {..<(1::nat)}" by (intro card_mono) simp_all
  then have c: "card ?U < nGM short_pool_args" by (simp add: short_pool_args_def)
  have sp: "phase1 uncond_target short_pool_args [] = Inl SystemExit"
    using t2 ne pos c by blast
  have em: "sampleBig empty_pool_args = [] \<and> 0 < nGM empty_pool_args"
    by (simp add: empty_pool_args_def one_record_args_def)
  then have ep: "phase1 uncond_target empty_pool_args [] = Inl IndexError" using t3 by blast
  have p: "phase1 uncond_target ?a [] = Inr (st_one_record None)"
    by (simp add: phase1_one_record st_one_record_def)
  then have l: "length (recID (st_one_record None)) = nGM ?a \<and> distinct (recID (st_one_record None))"
    using t1 by blast
  show ?thesis using e m x ne sf c sp em ep p l by blast
qed

section \<open>A slot in which no candidate is accepted\<close>














section \<open>A further pass can raise an error measure\<close>

lemma np_mean_pair: "np_mean [x, y] = (x + y) / 2"
  by (simp add: np_mean_def)

lemma np_std_pair: "np_std [x, y] = \<bar>x - y\<bar> / 2"
proof -
  have "((x - (x + y) / 2)\<^sup>2 + (y - (x + y) / 2)\<^sup>2) / 2 = (\<bar>x - y\<bar> / 2)\<^sup>2"
    by (simp add: power2_eq_square field_simps)
  then have "np_std [x, y] = sqrt ((\<bar>x - y\<bar> / 2)\<^sup>2)"
    by (simp add: np_std_def np_mean_def)
  then show ?thesis by simp
qed

lemmas pair_defs = phase1_def init_selection_def phase1_step_def err1_def scaleFac1_def
  scaleFac2_def np_log_def argsort0_def phase2_pass_def phase2_step_def cand2_def
  devTotal_of_def np_delete_def np_mean_pair np_std_pair col_def Let_def
  numeral_2_eq_2 numeral_3_eq_3 power2_eq_square

lemma c7_phase1: "phase1 uncond_target c7_args [] = Inr c7_init"
  by (simp add: pair_defs uncond_target_def c7_args_def c7_init_def)

lemma c7_pass1: "phase2_pass uncond_target c7_args [] c7_init = Inr c7_converged"
  by (simp add: pair_defs uncond_target_def c7_args_def c7_init_def c7_converged_def)

lemma c7_pass2: "phase2_pass uncond_target c7_args [] c7_converged = Inr c7_again"
  by (simp add: pair_defs uncond_target_def c7_args_def c7_again_def c7_converged_def)


lemmas err_defs = pct_errors_def check_idx_def medianErr_of_def stdErr_of_def col_def
  np_mean_pair np_std_pair Let_def

lemma c7_errors1:
  "pct_errors uncond_target [] [] (sampleSmall c7_converged)
     = Inr (\<bar>exp (- (3 / 40)) - 1\<bar> * 100, 5 / 2)"
  by (simp add: err_defs uncond_target_def c7_converged_def)

lemma c7_errors2:
  "pct_errors uncond_target [] [] (sampleSmall c7_again) = Inr (0, 5)"
  by (simp add: err_defs uncond_target_def c7_again_def)

lemma c7_median_small: "\<bar>exp (- (3 / 40) :: real) - 1\<bar> * 100 < 10"
proof -
  have lo: "1 + (- (3 / 40) :: real) \<le> exp (- (3 / 40))" by (rule exp_ge_add_one_self)
  have hi: "exp (- (3 / 40) :: real) \<le> 1" by simp
  from lo hi show ?thesis by simp
qed

lemma c7_select:
  "select uncond_target c7_args = Inr (c7_converged, \<bar>exp (- (3 / 40)) - 1\<bar> * 100, 5 / 2)"
proof -
  have n: "nLoop c7_args = Suc (Suc 0)" "tol c7_args = 10" by (simp_all add: c7_args_def)
  have c: "cond uncond_target = 0" by (simp add: uncond_target_def)
  show ?thesis using c7_median_small
    by (simp add: select_def c n c7_phase1 c7_pass1 c7_errors1)
qed

text \<open>
  Claim C7, as stated, fails. Four records \<open>-1.1, 0.95, -0.95, 0\<close> on one period,
  target \<open>mu_ln = 0\<close>, \<open>sigma_ln = 1\<close>, default weights, \<open>nGM = 2\<close>, no scaling. Phase 1
  and the first pass select the records 0 and 1 with errors of about 7.2 and 2.5 percent,
  below the tolerance 10: \<open>select\<close> stops here. One more pass replaces record 0 by
  record 2: the total deviation falls from 0.006875 to 0.005, and the error of the
  standard deviation rises from 2.5 to 5 percent.
\<close>

theorem C7_counterexample:
  "phase1 uncond_target c7_args [] = Inr c7_init
   \<and> phase2_pass uncond_target c7_args [] c7_init = Inr c7_converged
   \<and> select uncond_target c7_args = Inr (c7_converged, \<bar>exp (- (3 / 40)) - 1\<bar> * 100, 5 / 2)
   \<and> \<bar>exp (- (3 / 40) :: real) - 1\<bar> * 100 < tol c7_args
   \<and> 5 / 2 < tol c7_args
   \<and> phase2_pass uncond_target c7_args [] c7_converged = Inr c7_again
   \<and> pct_errors uncond_target [] [] (sampleSmall c7_again) = Inr (0, 5)"
proof -
  have t: "tol c7_args = 10" by (simp add: c7_args_def)
  show ?thesis
    using c7_phase1 c7_pass1 c7_select c7_median_small c7_pass2 c7_errors2 by (simp add: t)
qed

lemma pass_not_worse:
  assumes W: "0 \<le> weights a ! 0" "0 \<le> weights a ! 1"
    and p1: "phase1 self a ind1 = Inr st0"
    and ps: "passes self a ind1 n st0 = Inr st"
    and pass: "phase2_pass self a ind1 st = Inr st'"
  shows "devTotal_of self a (sampleSmall st') \<le> devTotal_of self a (sampleSmall st)"
proof -
  from selection_ok [OF W p1 ps] have "good_selection self a ind1 st" "settled self a st"
    by simp_all
  from phase2_pass_good [OF this W pass] show ?thesis by simp
qed

text \<open>
  Claim C7, amended: for a selection produced by Phase 1 followed by any number of
  passes (in particular one at which the loop stopped because both errors were below
  the tolerance), one more pass of Phase 2 does not increase the weighted total
  deviation \<open>devTotal\<close> that the pass minimises. The two maximal percent errors are not
  part of the statement: either can rise. The error weights are non-negative.
\<close>

theorem C7_pass_does_not_increase_devTotal:
  assumes "0 \<le> weights a ! 0" and "0 \<le> weights a ! 1"
  shows "phase1 self a ind1 = Inr st0 \<and> passes self a ind1 n st0 = Inr st
           \<and> phase2_pass self a ind1 st = Inr st'
         \<longrightarrow> devTotal_of self a (sampleSmall st') \<le> devTotal_of self a (sampleSmall st)"
  using pass_not_worse [OF assms] by blast

text \<open>
  The amended statement on the run of the counterexample: the further pass lowers the
  total deviation from \<open>11/1600\<close> to \<open>1/200\<close>.
\<close>

theorem C7_pass_does_not_increase_devTotal_witness:
  "0 \<le> weights c7_args ! 0 \<and> 0 \<le> weights c7_args ! 1
   \<and> phase1 uncond_target c7_args [] = Inr c7_init
   \<and> passes uncond_target c7_args [] 1 c7_init = Inr c7_converged
   \<and> phase2_pass uncond_target c7_args [] c7_converged = Inr c7_again
   \<and> devTotal_of uncond_target c7_args (sampleSmall c7_again) = 1 / 200
   \<and> devTotal_of uncond_target c7_args (sampleSmall c7_converged) = 11 / 1600
   \<and> devTotal_of uncond_target c7_args (sampleSmall c7_again)
        \<le> devTotal_of uncond_target c7_args (sampleSmall c7_converged)"
proof -
  have w: "0 \<le> weights c7_args ! 0" "0 \<le> weights c7_args ! 1"
    by (simp_all add: c7_args_def)
  have ps: "passes uncond_target c7_args [] 1 c7_init = Inr c7_converged"
    by (simp add: c7_pass1)
  have d1: "devTotal_of uncond_target c7_args (sampleSmall c7_again) = 1 / 200"
    by (simp add: pair_defs uncond_target_def c7_args_def c7_again_def)
  have d0: "devTotal_of uncond_target c7_args (sampleSmall c7_converged) = 11 / 1600"
    by (simp add: pair_defs uncond_target_def c7_args_def c7_converged_def)
  from C7_pass_does_not_increase_devTotal [OF w, of uncond_target "[]" c7_init 1 c7_converged c7_again]
    c7_phase1 ps c7_pass2
  have "devTotal_of uncond_target c7_args (sampleSmall c7_again)
        \<le> devTotal_of uncond_target c7_args (sampleSmall c7_converged)" by blast
  with w c7_phase1 ps c7_pass2 d0 d1 show ?thesis by blast
qed

section \<open>Distinct records and bounded scale factors\<close>

text \<open>A run with the weights \<open>[-10^6, 0, 0.3]\<close> on the records \<open>[0]\<close> and \<open>[2]\<close>.\<close>

lemma neg_weight_phase1: "phase1 uncond_target neg_weight_args [] = Inr neg_weight_init"
  by (simp add: pair_defs uncond_target_def neg_weight_args_def neg_weight_init_def)

lemma neg_weight_cands:
  "cand2 uncond_target neg_weight_args [] [[2]] [1] 0 0 = Inr (1, - 1000000)"
  "cand2 uncond_target neg_weight_args [] [[2]] [1] 0 1 = Inr (1, - 3000000)"
  by (simp_all add: pair_defs uncond_target_def neg_weight_args_def)

lemma neg_weight_pass1:
  "phase2_pass uncond_target neg_weight_args [] neg_weight_init = Inr neg_weight_dup"
  by (simp add: pair_defs uncond_target_def neg_weight_args_def neg_weight_init_def neg_weight_dup_def)

lemma neg_weight_pass2:
  "phase2_pass uncond_target neg_weight_args [] neg_weight_dup = Inr neg_weight_dup"
  by (simp add: pair_defs uncond_target_def neg_weight_args_def neg_weight_init_def neg_weight_dup_def)

lemma neg_weight_errors:
  "pct_errors uncond_target [] [] (sampleSmall neg_weight_dup) = Inr (\<bar>exp 2 - 1\<bar> * 100, 100)"
  by (simp add: err_defs uncond_target_def neg_weight_dup_def)

lemma neg_weight_select:
  "select uncond_target neg_weight_args = Inr (neg_weight_dup, \<bar>exp 2 - 1\<bar> * 100, 100)"
proof -
  have n: "nLoop neg_weight_args = Suc (Suc 0)" "tol neg_weight_args = 10"
    by (simp_all add: neg_weight_args_def)
  have c: "cond uncond_target = 0" by (simp add: uncond_target_def)
  show ?thesis
    by (simp add: select_def c n neg_weight_phase1 neg_weight_pass1 neg_weight_pass2 neg_weight_errors)
qed

text \<open>
  Claim C4, as stated, fails: nothing in \<open>select\<close> checks the sign of the weights, and
  with a negative weight on the error of the mean the surcharge of \<open>10^6\<close> does not keep
  an excluded candidate out. Records \<open>[0]\<close> and \<open>[2]\<close>, target \<open>mu_ln = 0\<close>, weights
  \<open>[-10^6, 0, 0.3]\<close>, \<open>nGM = 2\<close>, no scaling: Phase 1 selects the records 0 and 1; for
  slot 0 record 0 has \<open>devTotal = -10^6\<close> and the already selected record 1 has
  \<open>-4 * 10^6 + 10^6 = -3 * 10^6\<close>, which is smaller, so record 1 is inserted a second
  time. The pass ends, and \<open>select\<close> returns, with \<open>recID = [1, 1]\<close>.
\<close>

theorem C4_counterexample:
  "phase1 uncond_target neg_weight_args [] = Inr neg_weight_init
   \<and> cand2 uncond_target neg_weight_args [] (np_delete (sampleSmall neg_weight_init) 0)
        (np_delete (recID neg_weight_init) 0) 0 0 = Inr (1, - 1000000)
   \<and> cand2 uncond_target neg_weight_args [] (np_delete (sampleSmall neg_weight_init) 0)
        (np_delete (recID neg_weight_init) 0) 0 1 = Inr (1, - 3000000)
   \<and> passes uncond_target neg_weight_args [] 1 neg_weight_init = Inr neg_weight_dup
   \<and> select uncond_target neg_weight_args = Inr (neg_weight_dup, \<bar>exp 2 - 1\<bar> * 100, 100)
   \<and> recID neg_weight_dup = [1, 1]
   \<and> \<not> distinct (recID neg_weight_dup)"
  using neg_weight_phase1 neg_weight_cands neg_weight_pass1 neg_weight_select
  by (simp add: neg_weight_dup_def neg_weight_init_def np_delete_def)

text \<open>
  Claim C4, amended: at the end of Phase 1 the selected record indices are pairwise
  distinct and no scale factor exceeds \<open>maxScale\<close>; and when the error weights
  \<open>weights[0]\<close> and \<open>weights[1]\<close> are non-negative the same holds at the end of every
  pass of Phase 2 (the state after any number \<open>n\<close> of passes, and so the state \<open>select\<close>
  returns), for a run that reaches the end of the pass.
\<close>

theorem C4_distinct_and_scaled_amended:
  "(phase1 self a ind1 = Inr st0
      \<longrightarrow> distinct (recID st0) \<and> (\<forall>s \<in> set (finalScaleFac st0). s \<le> maxScale a))
   \<and> (0 \<le> weights a ! 0 \<and> 0 \<le> weights a ! 1
        \<and> phase1 self a ind1 = Inr st0 \<and> passes self a ind1 n st0 = Inr st
      \<longrightarrow> distinct (recID st) \<and> (\<forall>s \<in> set (finalScaleFac st). s \<le> maxScale a))
   \<and> (0 \<le> weights a ! 0 \<and> 0 \<le> weights a ! 1 \<and> select self a = Inr (st', e)
      \<longrightarrow> distinct (recID st') \<and> (\<forall>s \<in> set (finalScaleFac st'). s \<le> maxScale a))"
proof (intro conjI impI)
  assume p: "phase1 self a ind1 = Inr st0"
  from phase1_good [OF p] have g: "good_selection self a ind1 st0" by simp
  then show "distinct (recID st0)" by (simp add: good_selection_def)
  show "\<forall>s \<in> set (finalScaleFac st0). s \<le> maxScale a"
    using good_selection_scale [OF g] by blast
next
  assume h: "0 \<le> weights a ! 0 \<and> 0 \<le> weights a ! 1
        \<and> phase1 self a ind1 = Inr st0 \<and> passes self a ind1 n st0 = Inr st"
  then have g: "good_selection self a ind1 st"
    using selection_ok [of a self ind1 st0 n st] by simp
  then show "distinct (recID st)" by (simp add: good_selection_def)
  show "\<forall>s \<in> set (finalScaleFac st). s \<le> maxScale a"
    using good_selection_scale [OF g] by blast
next
  assume h: "0 \<le> weights a ! 0 \<and> 0 \<le> weights a ! 1 \<and> select self a = Inr (st', e)"
  then have "select self a = Inr (st', e)" by simp
  from select_Inr [OF this] obtain i1 t0 k where "phase1 self a i1 = Inr t0"
    "passes self a i1 k t0 = Inr st'" by blast
  then have g: "good_selection self a i1 st'"
    using h selection_ok [of a self i1 t0 k st'] by simp
  then show "distinct (recID st')" by (simp add: good_selection_def)
  show "\<forall>s \<in> set (finalScaleFac st'). s \<le> maxScale a"
    using good_selection_scale [OF g] by blast
qed

text \<open>
  The amended statement on a run with four records and \<open>nGM = 2\<close>: the selections
  after Phase 1, after one pass (returned by \<open>select\<close>) and after two passes are
  \<open>[0, 3]\<close>, \<open>[0, 1]\<close> and \<open>[2, 1]\<close>.
\<close>

theorem C4_distinct_and_scaled_amended_witness:
  "(0 \<le> weights c7_args ! 0 \<and> 0 \<le> weights c7_args ! 1)
   \<and> phase1 uncond_target c7_args [] = Inr c7_init
   \<and> passes uncond_target c7_args [] 1 c7_init = Inr c7_converged
   \<and> passes uncond_target c7_args [] 2 c7_init = Inr c7_again
   \<and> select uncond_target c7_args = Inr (c7_converged, \<bar>exp (- (3 / 40)) - 1\<bar> * 100, 5 / 2)
   \<and> recID c7_init = [0, 3] \<and> distinct (recID c7_init)
   \<and> recID c7_converged = [0, 1] \<and> distinct (recID c7_converged)
   \<and> recID c7_again = [2, 1] \<and> distinct (recID c7_again)
   \<and> list_all (\<lambda>s. s \<le> maxScale c7_args) (finalScaleFac c7_init)
   \<and> list_all (\<lambda>s. s \<le> maxScale c7_args) (finalScaleFac c7_converged)
   \<and> list_all (\<lambda>s. s \<le> maxScale c7_args) (finalScaleFac c7_again)"
proof -
  have w: "0 \<le> weights c7_args ! 0 \<and> 0 \<le> weights c7_args ! 1" by (simp add: c7_args_def)
  have ps1: "passes uncond_target c7_args [] 1 c7_init = Inr c7_converged"
    by (simp add: c7_pass1)
  have ps2: "passes uncond_target c7_args [] 2 c7_init = Inr c7_again"
    by (simp add: c7_pass1 c7_pass2 numeral_2_eq_2)
  have ids: "recID c7_init = [0, 3]" "recID c7_converged = [0, 1]" "recID c7_again = [2, 1]"
    by (simp_all add: c7_init_def c7_converged_def c7_again_def)
  note t0 = C4_distinct_and_scaled_amended [of uncond_target c7_args "[]" c7_init 1 c7_converged
      c7_converged "(\<bar>exp (- (3 / 40)) - 1\<bar> * 100, 5 / 2)"]
  note t2 = C4_distinct_and_scaled_amended [of uncond_target c7_args "[]" c7_init 2 c7_again
      c7_converged "(\<bar>exp (- (3 / 40)) - 1\<bar> * 100, 5 / 2)"]
  from t0 c7_phase1 have a0: "distinct (recID c7_init)
      \<and> (\<forall>s \<in> set (finalScaleFac c7_init). s \<le> maxScale c7_args)" by blast
  from t0 w c7_phase1 ps1 have a1: "distinct (recID c7_converged)
      \<and> (\<forall>s \<in> set (finalScaleFac c7_converged). s \<le> maxScale c7_args)" by blast
  from t2 w c7_phase1 ps2 have a2: "distinct (recID c7_again)
      \<and> (\<forall>s \<in> set (finalScaleFac c7_again). s \<le> maxScale c7_args)" by blast
  from t0 w c7_select have a3: "distinct (recID c7_converged)" by blast
  show ?thesis using w c7_phase1 ps1 ps2 c7_select ids a0 a1 a2 a3 unfolding list_all_iff by blast
qed

section \<open>The convergence test with a single conditioning period\<close>

lemma cond_indices_single:
  assumes "cond_indices Ts [ts] = Inr (ind1, ind2)"
  shows "length ind1 = 1 \<and> length ind2 = 1"
  using assms by (auto simp: cond_indices_def bindE_eq_Inr)

lemma c2_indices: "cond_indices (T c2_target) [2 / 10] = Inr ([1], [0])"
  by (simp add: cond_indices_def np_where0_def c2_target_def)

lemma c2_phase1:
  "phase1 c2_target c2_args [1] = Inr (c2_selection\<lparr>minID := None\<rparr>)"
  by (simp add: pair_defs c2_target_def c2_args_def c2_selection_def)

lemma c2_pass:
  "phase2_pass c2_target c2_args [1] (c2_selection\<lparr>minID := None\<rparr>) = Inr c2_selection"
  by (simp add: pair_defs c2_target_def c2_args_def c2_selection_def)

lemma c2_errors: "pct_errors c2_target [1] [0] (sampleSmall c2_selection) = Inr (0, 0)"
  by (simp add: err_defs c2_target_def c2_selection_def)

lemma c2_select: "select c2_target c2_args = Inr (c2_selection, 0, 0)"
proof -
  have n: "nLoop c2_args = Suc (Suc 0)" "tol c2_args = 10" by (simp_all add: c2_args_def)
  have c: "cond c2_target = 1" "Tstar c2_target = Some [2 / 10]" by (simp_all add: c2_target_def)
  show ?thesis using c2_indices c2_phase1 c2_pass c2_errors
    by (simp add: select_def c n)
qed

text \<open>
  Claim C2 against the code. Periods \<open>0.1, 0.2, 0.3\<close>, conditioning period \<open>0.2\<close>:
  \<open>ind2\<close> is \<open>[0]\<close>, the first period different from \<open>T*\<close>, so the convergence test
  looks at period \<open>0.1\<close> only. For a selection whose standard deviation at period
  \<open>0.3\<close> is 0 against a target of 1, the test computes the errors \<open>(0, 0)\<close> and
  \<open>select\<close> stops after the first pass, while the maximum over the periods other than
  \<open>T*\<close> (indices 0 and 2) of the error of the standard deviation is 100 percent.
\<close>

theorem C2_convergence_test_one_period:
  "cond_indices (T c2_target) [2 / 10] = Inr ([1], [0])
   \<and> check_idx c2_target [1] [0] = [0]
   \<and> pct_errors c2_target [1] [0] (sampleSmall c2_selection) = Inr (0, 0)
   \<and> select c2_target c2_args = Inr (c2_selection, 0, 0)
   \<and> stdErr_of c2_target [0, 2] (sampleSmall c2_selection) = 100
   \<and> tol c2_args = 10"
proof -
  have a: "check_idx c2_target [1] [0] = [0]" by (simp add: check_idx_def c2_target_def)
  have b: "stdErr_of c2_target [0, 2] (sampleSmall c2_selection) = 100"
    by (simp add: err_defs c2_target_def c2_selection_def)
  have c: "tol c2_args = 10" by (simp add: c2_args_def)
  show ?thesis using c2_indices a c2_errors c2_select b c by simp
qed

section \<open>The target spectrum\<close>

lemma create_Inr:
  assumes "create c = Inr tgt"
  shows "\<exists>T_Tgt Ts scs TgtCov im.
      target_periods c = Inr T_Tgt
    \<and> conditioning_periods c T_Tgt = Inr Ts
    \<and> mapE (scenario_target c T_Tgt Ts) [0..<nScenarios c] = Inr scs
    \<and> (if useVar_arg c = 0
        then Inr (replicate (nScenarios c) (replicate (length T_Tgt) (replicate (length T_Tgt) 0)))
        else mapE snd scs) = Inr TgtCov
    \<and> length (Hcont_of c) = nScenarios c \<and> nScenarios c \<noteq> 0
    \<and> stored_im_Tstar c T_Tgt Ts (TgtMean_fin_of (Hcont_of c) (map fst scs) (length T_Tgt)) = Inr im
    \<and> mu_ln tgt = TgtMean_fin_of (Hcont_of c) (map fst scs) (length T_Tgt)
    \<and> cov tgt = TgtCov_fin_of TgtCov
         (cov_diag_of (Hcont_of c) (map fst scs) TgtCov (mu_ln tgt) (length T_Tgt)) (length T_Tgt)
    \<and> sigma_ln tgt = map (\<lambda>i. sqrt_or_zero (cov tgt ! i ! i)) [0..<length T_Tgt]
    \<and> T tgt = T_Tgt \<and> cond tgt = cond_arg c \<and> useVar tgt = useVar_arg c
    \<and> Hcont tgt = Hcont_of c \<and> Tstar tgt = Ts \<and> im_Tstar tgt = im"
  using assms unfolding create_def Let_def Hcont_of_def [symmetric]
  by (auto simp: bindE_eq_Inr split: if_splits)




lemma sqrt_floor: "sqrt (1 / 10 ^ 10) = 1 / 10 ^ 5"
  by (rule real_sqrt_unique) (simp_all add: power2_eq_square)












section \<open>The conditional mean at the conditioning periods\<close>

lemma sum_list_upt: "sum_list (map f [0..<n]) = (\<Sum>i<n. (f i :: real))"
  by (simp add: interv_sum_list_conv_sum_set_nat atLeast0LessThan)

lemma sum_list_nth: "sum_list (map f xs) = (\<Sum>i<length xs. (f (xs ! i) :: real))"
  using sum_list_sum_nth [of "map f xs"] by (simp add: atLeast0LessThan)

lemma mapE_unique: "mapE f xs = Inr ys \<Longrightarrow> mapE f xs = Inr zs \<Longrightarrow> ys = zs"
  by simp

lemma sigma_arb_id: "ln (sqrt ((exp s)\<^sup>2 * (2 / (1 + 1)))) = (s::real)"
  by simp

lemma Sa_avg_Inr:
  assumes "Sa_avg g ts = Inr (muS, sigS)"
  shows "\<exists>MoC. mapE (\<lambda>a. mapE (\<lambda>b. Baker_Jayaram_2008 a b) ts) ts = Inr MoC
     \<and> ts \<noteq> []
     \<and> muS = (\<Sum>i<length ts. fst (g (ts ! i))) / real (length ts)
     \<and> 0 \<le> sigS
     \<and> sigS\<^sup>2 = (\<Sum>i<length ts. \<Sum>j<length ts. MoC ! i ! j * snd (g (ts ! i)) * snd (g (ts ! j)))
                 / (real (length ts))\<^sup>2"
proof -
  define n where "n = length ts"
  from assms obtain MoC where
    moc: "mapE (\<lambda>a. mapE (\<lambda>b. Baker_Jayaram_2008 a b) ts) ts = Inr MoC"
    and r: "(if n = 0 then Inl ZeroDivisionError
           else
             let SPa_avg_meanLn = (1 / real n) * sum_list (map (\<lambda>t. fst (g t)) ts);
                 SPa_avg_std =
                   sum_list (map (\<lambda>i. sum_list (map (\<lambda>j.
                       MoC ! i ! j * map (\<lambda>t. ln (sqrt ((exp (snd (g t)))\<^sup>2 * (2 / (1 + 1))))) ts ! i
                         * map (\<lambda>t. ln (sqrt ((exp (snd (g t)))\<^sup>2 * (2 / (1 + 1))))) ts ! j) [0..<n])) [0..<n])
                   * (1 / real n)\<^sup>2
             in if SPa_avg_std < 0 then Inl NotFinite
                else Inr (SPa_avg_meanLn, sqrt SPa_avg_std)) = Inr (muS, sigS)"
    unfolding Sa_avg_def Let_def n_def bindE_eq_Inr by blast
  define V where "V = (\<Sum>i<n. \<Sum>j<n. MoC ! i ! j * snd (g (ts ! i)) * snd (g (ts ! j))) * (1 / real n)\<^sup>2"
  have n0: "n \<noteq> 0" using r by (auto split: if_splits)
  have Veq: "sum_list (map (\<lambda>i. sum_list (map (\<lambda>j.
                       MoC ! i ! j * map (\<lambda>t. ln (sqrt ((exp (snd (g t)))\<^sup>2 * (2 / (1 + 1))))) ts ! i
                         * map (\<lambda>t. ln (sqrt ((exp (snd (g t)))\<^sup>2 * (2 / (1 + 1))))) ts ! j) [0..<n])) [0..<n])
                   * (1 / real n)\<^sup>2 = V"
    unfolding V_def sum_list_upt sigma_arb_id
    by (simp add: n_def)
  from r n0 have r': "(if V < 0 then Inl NotFinite
         else Inr ((1 / real n) * sum_list (map (\<lambda>t. fst (g t)) ts), sqrt V)) = Inr (muS, sigS)"
    unfolding Let_def Veq by simp
  then have V0: "0 \<le> V" and mu: "muS = (1 / real n) * sum_list (map (\<lambda>t. fst (g t)) ts)"
    and sg: "sigS = sqrt V"
    by (auto split: if_splits)
  have "sigS\<^sup>2 = V" unfolding sg using V0 by simp
  moreover have "muS = (\<Sum>i<length ts. fst (g (ts ! i))) / real (length ts)"
    unfolding mu sum_list_nth n_def by simp
  moreover have "0 \<le> sigS" unfolding sg using V0 by simp
  moreover have "ts \<noteq> []" using n0 unfolding n_def by simp
  ultimately show ?thesis using moc unfolding V_def n_def
    by (intro exI [of _ MoC]) (simp add: power_divide)
qed

lemma rho_AvgSA_SA_Inr:
  assumes "rho_AvgSA_SA g t ts = Inr r"
  shows "\<exists>bj avg. mapE (\<lambda>b. Baker_Jayaram_2008 t b) ts = Inr bj \<and> Sa_avg g ts = Inr avg
     \<and> real (length ts) * snd avg \<noteq> 0
     \<and> r = (\<Sum>j<length ts. bj ! j * snd (g (ts ! j))) / (real (length ts) * snd avg)"
  using assms unfolding rho_AvgSA_SA_def Let_def sum_list_upt
  by (auto simp: bindE_eq_Inr split: if_splits)

lemma where_indices:
  assumes "mapE (\<lambda>t. np_where0 (\<lambda>x. x = t) Tg) ts = Inr ind" "m < length ts"
  shows "ind ! m < length Tg \<and> Tg ! (ind ! m) = ts ! m"
proof -
  have "np_where0 (\<lambda>x. x = ts ! m) Tg = Inr (ind ! m)"
    using mapE_nth [OF assms] .
  then have "first_index (\<lambda>x. x = ts ! m) Tg = Some (ind ! m)"
    by (auto simp: np_where0_def split: option.splits)
  from first_index_Some [OF this] show ?thesis by simp
qed

text \<open>The sum of one scenario's conditional mean over the conditioning periods, when
  epsilon is back-calculated.\<close>

lemma scenario_mean_at_Tstar:
  assumes sc: "scenario_target c Tg (Some ts) n = Inr (mean, cv)"
    and cnd: "cond_arg c = 1" and eps: "epsilon c = None"
    and ind: "mapE (\<lambda>t. np_where0 (\<lambda>x. x = t) Tg) ts = Inr ind"
  shows "(\<Sum>m<length ts. mean ! (ind ! m)) = real (length ts) * ln (im_Tstar_arg c)
     \<and> 0 < im_Tstar_arg c \<and> ts \<noteq> []"
proof -
  define g where "g = bgmpe c n"
  define N where "N = length ts"
  define im where "im = im_Tstar_arg c"
  from sc cnd eps obtain rho avg where
    rho: "mapE (\<lambda>t. rho_AvgSA_SA g t ts) Tg = Inr rho"
    and avg: "Sa_avg g ts = Inr avg"
    and ok: "\<not> (im \<le> 0 \<or> snd avg = 0)"
    and mean: "mean = map (\<lambda>i. fst (g (Tg ! i)) + rho ! i * ((ln im - fst avg) / snd avg)
                              * snd (g (Tg ! i))) [0..<length Tg]"
    unfolding scenario_target_def Let_def g_def im_def
    by (auto simp: bindE_eq_Inr split: if_splits cong: map_cong)
  obtain muS sigS where a: "avg = (muS, sigS)" by (cases avg)
  from ok a have im: "0 < im" and s0: "sigS \<noteq> 0" by simp_all
  from Sa_avg_Inr [OF avg [unfolded a]] obtain MoC where
    moc: "mapE (\<lambda>a. mapE (\<lambda>b. Baker_Jayaram_2008 a b) ts) ts = Inr MoC"
    and ne: "ts \<noteq> []"
    and mu: "muS = (\<Sum>i<N. fst (g (ts ! i))) / real N"
    and V: "sigS\<^sup>2 = (\<Sum>i<N. \<Sum>j<N. MoC ! i ! j * snd (g (ts ! i)) * snd (g (ts ! j))) / (real N)\<^sup>2"
    unfolding N_def by blast
  have N0: "0 < N" using ne unfolding N_def by simp
  define e where "e = (ln im - muS) / sigS"
  have at: "mean ! (ind ! m) = fst (g (ts ! m))
      + ((\<Sum>j<N. MoC ! m ! j * snd (g (ts ! j))) / (real N * sigS)) * e * snd (g (ts ! m))"
    if m: "m < N" for m
  proof -
    from where_indices [OF ind m [unfolded N_def]]
    have k: "ind ! m < length Tg" "Tg ! (ind ! m) = ts ! m" by simp_all
    have "rho_AvgSA_SA g (Tg ! (ind ! m)) ts = Inr (rho ! (ind ! m))"
      using mapE_nth [OF rho k(1)] .
    from rho_AvgSA_SA_Inr [OF this [unfolded k(2)]] avg a obtain bj where
      bj: "mapE (\<lambda>b. Baker_Jayaram_2008 (ts ! m) b) ts = Inr bj"
      and r: "rho ! (ind ! m) = (\<Sum>j<N. bj ! j * snd (g (ts ! j))) / (real N * sigS)"
      unfolding N_def by auto
    have "mapE (\<lambda>b. Baker_Jayaram_2008 (ts ! m) b) ts = Inr (MoC ! m)"
      using mapE_nth [OF moc m [unfolded N_def]] .
    with bj have "bj = MoC ! m" by simp
    with r have r': "rho ! (ind ! m) = (\<Sum>j<N. MoC ! m ! j * snd (g (ts ! j))) / (real N * sigS)"
      by simp
    show ?thesis unfolding mean using k a r' by (simp add: e_def)
  qed
  define S where "S = (\<Sum>i<N. \<Sum>j<N. MoC ! i ! j * snd (g (ts ! i)) * snd (g (ts ! j)))"
  have SV: "S = sigS\<^sup>2 * (real N)\<^sup>2" unfolding V S_def using N0 by simp
  have "(\<Sum>m<N. mean ! (ind ! m))
      = (\<Sum>m<N. fst (g (ts ! m))
           + ((\<Sum>j<N. MoC ! m ! j * snd (g (ts ! j))) / (real N * sigS)) * e * snd (g (ts ! m)))"
    by (rule sum.cong) (simp_all add: at)
  also have "\<dots> = (\<Sum>m<N. fst (g (ts ! m)))
      + (\<Sum>m<N. (\<Sum>j<N. MoC ! m ! j * snd (g (ts ! m)) * snd (g (ts ! j)))) * (e / (real N * sigS))"
    by (simp add: sum.distrib sum_distrib_right sum_distrib_left sum_divide_distrib
        algebra_simps)
  also have "\<dots> = real N * muS + S * (e / (real N * sigS))"
    unfolding mu S_def using N0 by simp
  also have "\<dots> = real N * muS + real N * (ln im - muS)"
    unfolding SV e_def using N0 s0 by (simp add: power2_eq_square)
  also have "\<dots> = real N * ln im" by (simp add: algebra_simps)
  finally show ?thesis using im ne unfolding N_def im_def by simp
qed

lemma conditional_mean_round_trip:
  assumes cr: "create c = Inr tgt" and cnd: "cond_arg c = 1" and eps: "epsilon c = None"
    and H1: "sum_list (Hcont tgt) = 1" and ts: "Tstar tgt = Some ts"
    and ind: "mapE (\<lambda>t. np_where0 (\<lambda>x. x = t) (T tgt)) ts = Inr ind"
  shows "exp (sum_list (map (\<lambda>k. mu_ln tgt ! k) ind) / real (length ts)) = im_Tstar_arg c"
proof -
  define N where "N = length ts"
  define nS where "nS = nScenarios c"
  define H where "H = Hcont tgt"
  from create_Inr [OF cr] ts obtain scs where
    scs: "mapE (scenario_target c (T tgt) (Some ts)) [0..<nS] = Inr scs"
    and lH: "length H = nS" and nS0: "nS \<noteq> 0"
    and mu: "mu_ln tgt = TgtMean_fin_of H (map fst scs) (length (T tgt))"
    unfolding nS_def H_def by auto
  have ls: "length scs = nS" using mapE_length [OF scs] by simp
  have li: "length ind = N" using mapE_length [OF ind] unfolding N_def by simp
  have each: "(\<Sum>m<N. fst (scs ! n) ! (ind ! m)) = real N * ln (im_Tstar_arg c)
      \<and> 0 < im_Tstar_arg c \<and> ts \<noteq> []" if n: "n < nS" for n
  proof -
    have "scenario_target c (T tgt) (Some ts) n = Inr (scs ! n)"
      using mapE_nth [OF scs, of n] n by simp
    then have "scenario_target c (T tgt) (Some ts) n = Inr (fst (scs ! n), snd (scs ! n))"
      by simp
    from scenario_mean_at_Tstar [OF this cnd eps ind] show ?thesis unfolding N_def .
  qed
  from each [of 0] nS0 have im: "0 < im_Tstar_arg c" and N0: "0 < N"
    unfolding N_def by simp_all
  have at: "mu_ln tgt ! (ind ! m) = (\<Sum>n<nS. fst (scs ! n) ! (ind ! m) * H ! n)" if m: "m < N" for m
  proof -
    have k: "ind ! m < length (T tgt)" using where_indices [OF ind m [unfolded N_def]] by simp
    have e: "map (\<lambda>n. map fst scs ! n ! (ind ! m) * H ! n) [0..<nS]
        = map (\<lambda>n. fst (scs ! n) ! (ind ! m) * H ! n) [0..<nS]"
      by (rule map_cong) (simp_all add: ls)
    have "mu_ln tgt ! (ind ! m) = sum_list (map (\<lambda>n. map fst scs ! n ! (ind ! m) * H ! n) [0..<nS])"
      unfolding mu TgtMean_fin_of_def using k ls by simp
    then show ?thesis unfolding e sum_list_upt .
  qed
  have "sum_list (map (\<lambda>k. mu_ln tgt ! k) ind) = (\<Sum>m<N. mu_ln tgt ! (ind ! m))"
    unfolding sum_list_nth li ..
  also have "\<dots> = (\<Sum>m<N. \<Sum>n<nS. fst (scs ! n) ! (ind ! m) * H ! n)"
    by (rule sum.cong) (simp_all add: at)
  also have "\<dots> = (\<Sum>n<nS. (\<Sum>m<N. fst (scs ! n) ! (ind ! m)) * H ! n)"
    by (subst sum.swap) (simp add: sum_distrib_right)
  also have "\<dots> = (\<Sum>n<nS. real N * ln (im_Tstar_arg c) * H ! n)"
    by (rule sum.cong) (simp_all add: each)
  also have "\<dots> = real N * ln (im_Tstar_arg c) * (\<Sum>n<nS. H ! n)"
    by (simp add: sum_distrib_left)
  also have "(\<Sum>n<nS. H ! n) = sum_list H"
    using sum_list_sum_nth [of H] lH by (simp add: atLeast0LessThan)
  finally have "sum_list (map (\<lambda>k. mu_ln tgt ! k) ind) = real N * ln (im_Tstar_arg c)"
    using H1 unfolding H_def by simp
  then have "sum_list (map (\<lambda>k. mu_ln tgt ! k) ind) / real (length ts) = ln (im_Tstar_arg c)"
    using N0 unfolding N_def by simp
  then show ?thesis using im by simp
qed

lemma cond_indices_Inr:
  assumes "cond_indices Tg ts = Inr (ind1, ind2)"
  shows "mapE (\<lambda>t. np_where0 (\<lambda>x. x = t) Tg) ts = Inr ind1"
  using assms
proof (induction ts arbitrary: ind1 ind2)
  case Nil
  then show ?case by (simp add: cond_indices_def)
next
  case (Cons t ts)
  from Cons.prems obtain i1 i2 ps where
    a: "np_where0 (\<lambda>x. x = t) Tg = Inr i1" "np_where0 (\<lambda>x. x \<noteq> t) Tg = Inr i2"
    and ps: "mapE (\<lambda>ts. bindE (np_where0 (\<lambda>t. t = ts) Tg) (\<lambda>i1.
                        bindE (np_where0 (\<lambda>t. t \<noteq> ts) Tg) (\<lambda>i2. Inr (i1, i2)))) ts = Inr ps"
    and r: "ind1 = i1 # map fst ps" "ind2 = i2 # map snd ps"
    unfolding cond_indices_def by (auto simp: bindE_eq_Inr)
  have "cond_indices Tg ts = Inr (map fst ps, map snd ps)"
    unfolding cond_indices_def using ps by simp
  from Cons.IH [OF this] a r show ?case by simp
qed


lemmas create_defs = create_def target_periods_def nearest_index_def np_min_def np_max_def
  np_where0_def conditioning_periods_def scenario_target_def scenario_cov_def
  rho_AvgSA_SA_def Sa_avg_def TgtMean_fin_of_def cov_diag_of_def TgtCov_fin_of_def
  stored_im_Tstar_def cov_floor_def sqrt_or_zero_def Let_def numeral_2_eq_2

lemma c6_create: "create c6_args = Inr c6_target"
  by (simp add: create_defs c6_args_def c6_target_def Baker_Jayaram_2008_diag
      sqrt_floor [simplified])

lemma c10_create: "create c10_args = Inr c10_target"
  by (simp add: create_defs c10_args_def c6_args_def c10_target_def Baker_Jayaram_2008_diag
      power2_eq_square)

text \<open>
  Claim C6: for any number of scenarios whose hazard weights sum to 1, when the target
  is conditional and epsilon is back-calculated, the exponential of the mean of
  \<open>mu_ln\<close> over the indices of the conditioning periods is the conditioning level
  \<open>im_Tstar\<close>. In real arithmetic the equality is exact; it is stated for targets that
  \<open>create\<close> builds (so every standard deviation of the average is non-zero and
  \<open>im_Tstar\<close> is positive) and for conditioning periods found on the grid.
\<close>

theorem C6_conditional_mean_round_trip:
  "create c = Inr tgt \<and> cond_arg c = 1 \<and> epsilon c = None \<and> sum_list (Hcont tgt) = 1
     \<and> Tstar tgt = Some ts
     \<and> mapE (\<lambda>t. np_where0 (\<lambda>x. x = t) (T tgt)) ts = Inr ind
   \<longrightarrow> exp (sum_list (map (\<lambda>k. mu_ln tgt ! k) ind) / real (length ts)) = im_Tstar_arg c"
  using conditional_mean_round_trip [of c tgt ts ind] by blast

text \<open>
  The statement for two scenarios with weights 0.6 and 0.4 and the conditioning level 2.
\<close>

theorem C6_conditional_mean_round_trip_witness:
  "create c6_args = Inr c6_target \<and> cond_arg c6_args = 1 \<and> epsilon c6_args = None
   \<and> sum_list (Hcont c6_target) = 1 \<and> Tstar c6_target = Some [1]
   \<and> mapE (\<lambda>t. np_where0 (\<lambda>x. x = t) (T c6_target)) [1] = Inr [0]
   \<and> exp (sum_list (map (\<lambda>k. mu_ln c6_target ! k) [0]) / real (length [1::real])) = 2
   \<and> im_Tstar_arg c6_args = 2"
proof -
  have h: "create c6_args = Inr c6_target \<and> cond_arg c6_args = 1 \<and> epsilon c6_args = None
      \<and> sum_list (Hcont c6_target) = 1 \<and> Tstar c6_target = Some [1]
      \<and> mapE (\<lambda>t. np_where0 (\<lambda>x. x = t) (T c6_target)) [1] = Inr [0]"
    using c6_create by (simp add: c6_args_def c6_target_def np_where0_def)
  have a: "im_Tstar_arg c6_args = 2" by (simp add: c6_args_def)
  from C6_conditional_mean_round_trip [of c6_args c6_target "[1]" "[0]"] h a
  have "exp (sum_list (map (\<lambda>k. mu_ln c6_target ! k) [0]) / real (length [1::real])) = 2"
    by simp
  with h a show ?thesis by blast
qed

section \<open>The stored conditioning level\<close>

lemma create_conditional:
  assumes cr: "create c = Inr tgt" and cnd: "cond_arg c = 1"
  shows "\<exists>ts im. Tstar tgt = Some ts \<and> ts \<noteq> [] \<and> im_Tstar tgt = Some im \<and> cond tgt = 1"
proof -
  from create_Inr [OF cr] obtain scs im where
    scs: "mapE (scenario_target c (T tgt) (Tstar tgt)) [0..<nScenarios c] = Inr scs"
    and nS: "nScenarios c \<noteq> 0"
    and st: "stored_im_Tstar c (T tgt) (Tstar tgt) (mu_ln tgt) = Inr im"
    and im: "im_Tstar tgt = im" and c1: "cond tgt = cond_arg c"
    by auto
  have "scenario_target c (T tgt) (Tstar tgt) 0 = Inr (scs ! 0)"
    using mapE_nth [OF scs, of 0] nS by simp
  then obtain ts avg where ts: "Tstar tgt = Some ts" and "Sa_avg (bgmpe c 0) ts = Inr avg"
    unfolding scenario_target_def Let_def using cnd
    by (auto simp: bindE_eq_Inr split: option.splits)
  then have ne: "ts \<noteq> []" using Sa_avg_Inr [of "bgmpe c 0" ts "fst avg" "snd avg"] by auto
  from st cnd ts obtain v where "im = Some v"
    unfolding stored_im_Tstar_def by (auto simp: bindE_eq_Inr split: option.splits if_splits)
  with ts ne im c1 cnd show ?thesis by simp
qed

lemma create_im_backcalc:
  assumes "create c = Inr tgt" "cond_arg c = 1" "epsilon c = None"
  shows "im_Tstar tgt = Some (im_Tstar_arg c)"
  using create_Inr [OF assms(1)] assms(2,3) by (auto simp: stored_im_Tstar_def)

lemma create_im_recomputed:
  assumes "create c = Inr tgt" "cond_arg c = 1" "epsilon c \<noteq> None"
  shows "\<exists>ts ind. Tstar tgt = Some ts
       \<and> mapE (\<lambda>t. np_where0 (\<lambda>x. x = t) (T tgt)) ts = Inr ind
       \<and> im_Tstar tgt = Some (exp (sum_list (map (\<lambda>k. mu_ln tgt ! k) ind) / real (length ts)))"
  using create_Inr [OF assms(1)] assms(2,3)
  by (auto simp: stored_im_Tstar_def bindE_eq_Inr split: option.splits if_splits)

lemma create_ignores_im_Tstar:
  assumes "epsilon c \<noteq> None"
  shows "create (c\<lparr>im_Tstar_arg := x\<rparr>) = create c"
proof -
  from assms obtain eps where e: "epsilon c = Some eps" by auto
  let ?c = "c\<lparr>im_Tstar_arg := x\<rparr>"
  have f: "bgmpe ?c = bgmpe c" "epsilon ?c = Some eps" "cond_arg ?c = cond_arg c"
    "T_Tgt_range ?c = T_Tgt_range c" "Periods ?c = Periods c" "Tstar_init ?c = Tstar_init c"
    "nScenarios ?c = nScenarios c" "Hcont_arg ?c = Hcont_arg c" "useVar_arg ?c = useVar_arg c"
    using e by simp_all
  have s: "scenario_target ?c = scenario_target c"
    by (intro ext) (simp only: scenario_target_def f e option.case)
  have t: "target_periods ?c = target_periods c"
    by (simp only: target_periods_def f)
  have p: "conditioning_periods ?c = conditioning_periods c"
    by (intro ext) (simp only: conditioning_periods_def f)
  have i: "stored_im_Tstar ?c = stored_im_Tstar c"
    by (intro ext) (simp only: stored_im_Tstar_def f e option.case)
  show ?thesis by (simp only: create_def s t p i f)
qed

lemma conditional_scale_factor:
  assumes "isScaled a = 1" "cond tgt = 1" "Tstar tgt = Some ts" "ts \<noteq> []" "im_Tstar tgt = Some im"
  shows "scaleFac1 tgt a ind1 i j
           = Inr (im / exp (sum_list (map (\<lambda>k. sampleBig a ! j ! k) ind1) / real (length ts)))"
    and "scaleFac2 tgt a ind1 i j
           = Inr (im / exp (sum_list (map (\<lambda>k. sampleBig a ! j ! k) ind1) / real (length ts)))"
  using assms by (simp_all add: scaleFac1_def scaleFac2_def)

text \<open>
  Claim C10: for a conditional target, \<open>create\<close> stores the caller's \<open>im_Tstar\<close> only
  when epsilon is \<open>None\<close>; with an explicit epsilon list it stores the exponential of
  the average of the combined mean over the conditioning-period indices, and the
  \<open>im_Tstar\<close> argument has no effect on the target at all. The stored value is the
  numerator of every conditional-mode scale factor of Phase 1 and Phase 2.
\<close>

theorem C10_stored_conditioning_level:
  "create c = Inr tgt \<and> cond_arg c = 1
   \<longrightarrow> (epsilon c = None \<longrightarrow> im_Tstar tgt = Some (im_Tstar_arg c))
      \<and> (epsilon c \<noteq> None \<longrightarrow>
            (\<exists>ts ind. Tstar tgt = Some ts
               \<and> mapE (\<lambda>t. np_where0 (\<lambda>x. x = t) (T tgt)) ts = Inr ind
               \<and> im_Tstar tgt
                   = Some (exp (sum_list (map (\<lambda>k. mu_ln tgt ! k) ind) / real (length ts))))
            \<and> (\<forall>x. create (c\<lparr>im_Tstar_arg := x\<rparr>) = Inr tgt))
      \<and> (isScaled a = 1 \<longrightarrow>
            (\<exists>ts im. Tstar tgt = Some ts \<and> im_Tstar tgt = Some im
               \<and> scaleFac1 tgt a ind1 i j
                   = Inr (im / exp (sum_list (map (\<lambda>k. sampleBig a ! j ! k) ind1)
                                    / real (length ts)))
               \<and> scaleFac2 tgt a ind1 i j
                   = Inr (im / exp (sum_list (map (\<lambda>k. sampleBig a ! j ! k) ind1)
                                    / real (length ts)))))"
proof (intro impI conjI allI)
  assume h: "create c = Inr tgt \<and> cond_arg c = 1"
  then have cr: "create c = Inr tgt" and cnd: "cond_arg c = 1" by simp_all
  {
    assume "epsilon c = None"
    then show "im_Tstar tgt = Some (im_Tstar_arg c)" using create_im_backcalc [OF cr cnd] by simp
  }
  {
    assume e: "epsilon c \<noteq> None"
    show "\<exists>ts ind. Tstar tgt = Some ts
               \<and> mapE (\<lambda>t. np_where0 (\<lambda>x. x = t) (T tgt)) ts = Inr ind
               \<and> im_Tstar tgt
                   = Some (exp (sum_list (map (\<lambda>k. mu_ln tgt ! k) ind) / real (length ts)))"
      using create_im_recomputed [OF cr cnd e] .
    fix x show "create (c\<lparr>im_Tstar_arg := x\<rparr>) = Inr tgt"
      using create_ignores_im_Tstar [OF e] cr by simp
  }
  {
    assume s: "isScaled a = 1"
    from create_conditional [OF cr cnd] obtain ts im where
      t: "Tstar tgt = Some ts" "ts \<noteq> []" "im_Tstar tgt = Some im" "cond tgt = 1" by blast
    from conditional_scale_factor [OF s t(4) t(1) t(2) t(3)] t
    show "\<exists>ts im. Tstar tgt = Some ts \<and> im_Tstar tgt = Some im
               \<and> scaleFac1 tgt a ind1 i j
                   = Inr (im / exp (sum_list (map (\<lambda>k. sampleBig a ! j ! k) ind1)
                                    / real (length ts)))
               \<and> scaleFac2 tgt a ind1 i j
                   = Inr (im / exp (sum_list (map (\<lambda>k. sampleBig a ! j ! k) ind1)
                                    / real (length ts)))"
      by blast
  }
qed

text \<open>
  The statement for two scenarios: with epsilon given as 0 the stored level is
  \<open>exp 0.4\<close> whatever the argument (2 or 7), and with epsilon \<open>None\<close> it is the argument.
\<close>

theorem C10_stored_conditioning_level_witness:
  "create c10_args = Inr c10_target \<and> cond_arg c10_args = 1 \<and> epsilon c10_args \<noteq> None
   \<and> im_Tstar_arg c10_args = 2
   \<and> im_Tstar c10_target = Some (exp (2 / 5))
   \<and> create (c10_args\<lparr>im_Tstar_arg := 7\<rparr>) = Inr c10_target
   \<and> isScaled (one_record_args 0) = 1
   \<and> scaleFac2 c10_target (one_record_args 0) [0] 0 0 = Inr (exp (2 / 5))
   \<and> create c6_args = Inr c6_target \<and> cond_arg c6_args = 1 \<and> epsilon c6_args = None
   \<and> im_Tstar c6_target = Some (im_Tstar_arg c6_args)"
proof -
  let ?a = "one_record_args 0"
  have h: "create c10_args = Inr c10_target \<and> cond_arg c10_args = 1"
    using c10_create by (simp add: c10_args_def c6_args_def)
  have e: "epsilon c10_args \<noteq> None" by (simp add: c10_args_def)
  have s: "isScaled ?a = 1" by (simp add: one_record_args_def)
  note t = C10_stored_conditioning_level [of c10_args c10_target ?a "[0]" 0 0]
  have x: "create (c10_args\<lparr>im_Tstar_arg := 7\<rparr>) = Inr c10_target" using t h e by blast
  obtain ts im where "Tstar c10_target = Some ts" "im_Tstar c10_target = Some im"
    "scaleFac2 c10_target ?a [0] 0 0
       = Inr (im / exp (sum_list (map (\<lambda>k. sampleBig ?a ! 0 ! k) [0]) / real (length ts)))"
    using t h s by blast
  then have f: "scaleFac2 c10_target ?a [0] 0 0 = Inr (exp (2 / 5))"
    by (simp add: c10_target_def one_record_args_def)
  have g: "create c6_args = Inr c6_target \<and> cond_arg c6_args = 1"
    using c6_create by (simp add: c6_args_def)
  have n: "epsilon c6_args = None" by (simp add: c6_args_def)
  have b: "im_Tstar c6_target = Some (im_Tstar_arg c6_args)"
    using C10_stored_conditioning_level [of c6_args c6_target ?a "[0]" 0 0] g n by blast
  have i: "im_Tstar_arg c10_args = 2" "im_Tstar c10_target = Some (exp (2 / 5))"
    by (simp_all add: c10_args_def c6_args_def c10_target_def)
  show ?thesis using h e i x s f g n b by blast
qed

end
